theory Spec2Isabelle
  imports Complex_Main
begin

section \<open>Numbers\<close>

text \<open>
  The game computes with Python floats and ints. Floats are read here as real numbers
  (no rounding, no infinities), ints as \<open>int\<close>. Python's \<open>int(v)\<close> on a float
  truncates towards zero.
\<close>

definition py_int :: "real \<Rightarrow> int" where
  "py_int v = (if 0 \<le> v then \<lfloor>v\<rfloor> else \<lceil>v\<rceil>)"

section \<open>The bird\<close>

record SimpleBird =
  bird_x :: real
  bird_y :: real
  start_x :: real
  start_y :: real
  bird_radius :: int
  vel_x :: real
  vel_y :: real
  is_flying :: bool
  trail :: "(int \<times> int) list"

definition SimpleBird_init :: "real \<Rightarrow> real \<Rightarrow> SimpleBird" where
  "SimpleBird_init px py =
     \<lparr>bird_x = px, bird_y = py, start_x = px, start_y = py, bird_radius = 15,
      vel_x = 0, vel_y = 0, is_flying = False, trail = []\<rparr>"

definition SimpleBird_reset :: "SimpleBird \<Rightarrow> SimpleBird" where
  "SimpleBird_reset b =
     b\<lparr>bird_x := start_x b, bird_y := start_y b, vel_x := 0, vel_y := 0,
       is_flying := False, trail := []\<rparr>"

text \<open>\<open>SimpleBird.update\<close>, statement by statement.\<close>

definition SimpleBird_update :: "SimpleBird \<Rightarrow> SimpleBird" where
  "SimpleBird_update b =
     (if is_flying b then
        let b1 = b\<lparr>vel_y := vel_y b + 0.3\<rparr>;
            b2 = b1\<lparr>vel_x := vel_x b1 * 0.995\<rparr>;
            b3 = b2\<lparr>bird_x := bird_x b2 + vel_x b2\<rparr>;
            b4 = b3\<lparr>bird_y := bird_y b3 + vel_y b3\<rparr>
        in if length (trail b4) < 20
           then b4\<lparr>trail := trail b4 @ [(py_int (bird_x b4), py_int (bird_y b4))]\<rparr>
           else b4
      else b)"

definition SimpleBird_launch :: "SimpleBird \<Rightarrow> real \<Rightarrow> real \<Rightarrow> SimpleBird" where
  "SimpleBird_launch b vx vy =
     b\<lparr>vel_x := vx, vel_y := vy, is_flying := True,
       trail := [(py_int (bird_x b), py_int (bird_y b))]\<rparr>"

section \<open>Targets\<close>

record SimpleTarget =
  target_x :: real
  target_y :: real
  target_radius :: int
  is_destroyed :: bool

definition SimpleTarget_init :: "real \<Rightarrow> real \<Rightarrow> SimpleTarget" where
  "SimpleTarget_init px py =
     \<lparr>target_x = px, target_y = py, target_radius = 20, is_destroyed = False\<rparr>"

definition check_collision :: "SimpleTarget \<Rightarrow> SimpleBird \<Rightarrow> bool \<times> SimpleTarget" where
  "check_collision t b =
     (if is_destroyed t then (False, t)
      else if sqrt ((target_x t - bird_x b)\<^sup>2 + (target_y t - bird_y b)\<^sup>2)
                < of_int (target_radius t + bird_radius b)
           then (True, t\<lparr>is_destroyed := True\<rparr>)
           else (False, t))"

section \<open>The restart button and the game\<close>

record button =
  btn_x :: int
  btn_y :: int
  btn_width :: int
  btn_height :: int
  clicked :: bool
  hover :: bool
  progress :: real
  max_progress :: int
  active :: bool
  detection_padding :: int
  fallback_activated :: bool
  has_triggered :: bool
  was_in_area :: bool
  trigger_cooldown :: int

record SimpleGame =
  width :: int
  height :: int
  pulling :: bool
  pull_x :: real
  pull_y :: real
  score :: int
  game_won :: bool
  is_paused :: bool
  fist_detected :: bool
  last_fist_state :: bool
  pause_message_timer :: int
  game_area_width :: real
  game_area_height :: real
  game_offset_x :: real
  game_offset_y :: real
  current_level :: int
  max_level :: int
  is_transitioning :: bool
  transition_progress :: int
  transition_direction :: string
  reset_button :: button
  bird :: SimpleBird
  targets :: "SimpleTarget list"

text \<open>
  The per-level table of \<open>init_level\<close>: each target sits at the bottom-right corner of
  the game area minus the listed offsets. Any level other than 1 to 4 takes the last layout.
\<close>

definition level_offsets :: "int \<Rightarrow> (real \<times> real) list" where
  "level_offsets lvl =
     (if lvl = 1 then [(100, 100), (150, 150), (200, 100)]
      else if lvl = 2 then [(80, 80), (120, 120), (160, 160), (200, 80)]
      else if lvl = 3 then [(70, 70), (110, 110), (150, 150), (190, 110), (230, 70)]
      else if lvl = 4 then
        [(100, 60), (140, 60), (180, 60), (120, 100), (160, 100), (140, 140)]
      else
        [(80, 60), (120, 100), (160, 140), (200, 100), (240, 60), (130, 180), (170, 180)])"

definition init_level :: "SimpleGame \<Rightarrow> SimpleGame" where
  "init_level g =
     g\<lparr>bird := SimpleBird_init (game_offset_x g + 100)
                 (game_offset_y g + game_area_height g - 150),
       targets := map (\<lambda>(dx, dy). SimpleTarget_init
                          (game_offset_x g + game_area_width g - dx)
                          (game_offset_y g + game_area_height g - dy))
                      (level_offsets (current_level g)),
       pulling := False\<rparr>"

text \<open>
  The constructor. The bird and the targets do not exist before \<open>init_level\<close> runs at
  its end; the record needs some value there, which \<open>init_level\<close> overwrites.
\<close>

definition SimpleGame_init :: "int \<Rightarrow> int \<Rightarrow> SimpleGame" where
  "SimpleGame_init w h =
     (let gaw = min (of_int w * 0.8) 800;
          gah = min (of_int h * 0.8) 600
      in init_level
        \<lparr>width = w, height = h, pulling = False, pull_x = 0, pull_y = 0, score = 0,
         game_won = False, is_paused = False, fist_detected = False,
         last_fist_state = False, pause_message_timer = 0,
         game_area_width = gaw, game_area_height = gah,
         game_offset_x = of_int \<lfloor>(of_int w - gaw) / 2\<rfloor>,
         game_offset_y = of_int \<lfloor>(of_int h - gah) / 2\<rfloor>,
         current_level = 1, max_level = 5,
         is_transitioning = False, transition_progress = 0,
         transition_direction = ''left'',
         reset_button =
           \<lparr>btn_x = 10, btn_y = h div 2 + 130, btn_width = 110, btn_height = 40,
            clicked = False, hover = False, progress = 0, max_progress = 60,
            active = False, detection_padding = 20, fallback_activated = False,
            has_triggered = False, was_in_area = False, trigger_cooldown = 30\<rparr>,
         bird = SimpleBird_init 0 0, targets = []\<rparr>)"

definition start_transition :: "SimpleGame \<Rightarrow> string \<Rightarrow> SimpleGame" where
  "start_transition g direction =
     g\<lparr>is_transitioning := True, transition_progress := 0,
       transition_direction := direction\<rparr>"

definition next_level :: "SimpleGame \<Rightarrow> SimpleGame" where
  "next_level g =
     (if \<not> is_transitioning g \<and> current_level g < max_level g
      then let g1 = start_transition g ''left''
           in g1\<lparr>current_level := current_level g1 + 1\<rparr>
      else g)"

definition update_transition :: "SimpleGame \<Rightarrow> bool \<times> SimpleGame" where
  "update_transition g =
     (if is_transitioning g then
        let g1 = g\<lparr>transition_progress := transition_progress g + 3\<rparr>
        in if transition_progress g1 \<ge> 100
           then (True, init_level (g1\<lparr>is_transitioning := False, transition_progress := 0\<rparr>))
           else (False, g1)
      else (False, g))"

text \<open>The collision loop of \<open>update\<close>: targets in order, 100 points for each hit.\<close>

fun collide_all :: "SimpleBird \<Rightarrow> SimpleTarget list \<Rightarrow> int \<Rightarrow> SimpleTarget list \<times> int" where
  "collide_all b [] sc = ([], sc)"
| "collide_all b (t # ts) sc =
     (let (hit, t') = check_collision t b;
          (ts', sc') = collide_all b ts (if hit then sc + 100 else sc)
      in (t' # ts', sc'))"

definition update :: "SimpleGame \<Rightarrow> SimpleGame" where
  "update g =
     (if is_transitioning g then snd (update_transition g)
      else
        let g1 = g\<lparr>bird := SimpleBird_update (bird g)\<rparr>;
            (ts, sc) = collide_all (bird g1) (targets g1) (score g1);
            g2 = g1\<lparr>targets := ts, score := sc\<rparr>;
            g3 = (if (bird_x (bird g2) > game_offset_x g2 + game_area_width g2
                      \<or> bird_y (bird g2) > game_offset_y g2 + game_area_height g2
                      \<or> bird_x (bird g2) < game_offset_x g2)
                     \<and> is_flying (bird g2)
                  then g2\<lparr>bird := SimpleBird_reset (bird g2)\<rparr> else g2)
        in g3\<lparr>game_won := list_all is_destroyed (targets g3)\<rparr>)"

definition start_pull :: "SimpleGame \<Rightarrow> real \<Rightarrow> real \<Rightarrow> SimpleGame" where
  "start_pull g px py =
     (if \<not> is_flying (bird g) \<and> \<not> game_won g
      then if sqrt ((px - bird_x (bird g))\<^sup>2 + (py - bird_y (bird g))\<^sup>2) < 40
           then g\<lparr>pulling := True\<rparr> else g
      else g)"

definition update_pull :: "SimpleGame \<Rightarrow> real \<Rightarrow> real \<Rightarrow> SimpleGame" where
  "update_pull g px py =
     (if pulling g then
        let distance = sqrt ((px - start_x (bird g))\<^sup>2 + (py - start_y (bird g))\<^sup>2);
            (qx, qy) =
              (if distance > 100
               then (start_x (bird g) + (px - start_x (bird g)) / distance * 100,
                     start_y (bird g) + (py - start_y (bird g)) / distance * 100)
               else (px, py))
        in g\<lparr>pull_x := qx, pull_y := qy, bird := (bird g)\<lparr>bird_x := qx, bird_y := qy\<rparr>\<rparr>
      else g)"

definition release :: "SimpleGame \<Rightarrow> SimpleGame" where
  "release g =
     (if pulling g then
        let vx = (start_x (bird g) - bird_x (bird g)) * 0.15;
            vy = (start_y (bird g) - bird_y (bird g)) * 0.15
        in g\<lparr>bird := SimpleBird_launch (bird g) vx vy, pulling := False\<rparr>
      else g)"

definition reset_game :: "SimpleGame \<Rightarrow> SimpleGame" where
  "reset_game g =
     (let g1 = g\<lparr>bird := SimpleBird_reset (bird g)\<rparr>;
          g2 = g1\<lparr>targets := map (\<lambda>t. t\<lparr>is_destroyed := False\<rparr>) (targets g1)\<rparr>;
          g3 = g2\<lparr>score := 0\<rparr>;
          g4 = g3\<lparr>game_won := False\<rparr>
      in g4\<lparr>pulling := False\<rparr>)"

text \<open>
  The two hit tests of \<open>check_button_hover\<close>: the expanded detection area (the button
  rectangle padded by \<open>detection_padding\<close> on every side) and the button rectangle itself.
\<close>

definition in_expanded_area :: "button \<Rightarrow> real \<Rightarrow> real \<Rightarrow> bool" where
  "in_expanded_area button px py =
     (let padding = detection_padding button;
          expanded_x1 = btn_x button - padding;
          expanded_y1 = btn_y button - padding;
          expanded_x2 = btn_x button + btn_width button + padding;
          expanded_y2 = btn_y button + btn_height button + padding
      in of_int expanded_x1 \<le> px \<and> px \<le> of_int expanded_x2
         \<and> of_int expanded_y1 \<le> py \<and> py \<le> of_int expanded_y2)"

definition in_button_area :: "button \<Rightarrow> real \<Rightarrow> real \<Rightarrow> bool" where
  "in_button_area button px py =
     (of_int (btn_x button) \<le> px \<and> px \<le> of_int (btn_x button + btn_width button)
      \<and> of_int (btn_y button) \<le> py \<and> py \<le> of_int (btn_y button + btn_height button))"

text \<open>
  \<open>check_button_hover\<close> works on the button dictionary in place; \<open>reset_game\<close>, called
  when the progress bar fills, leaves the dictionary alone. The result is the returned
  flag and the game after the call.
\<close>

definition check_button_hover :: "SimpleGame \<Rightarrow> real \<Rightarrow> real \<Rightarrow> bool \<times> SimpleGame" where
  "check_button_hover g px py =
     (let button = reset_button g;
          current_in_area = in_expanded_area button px py;
          just_left = (\<not> current_in_area \<and> was_in_area button);
          b1 = (if just_left
                then button\<lparr>has_triggered := False, progress := 0, active := False,
                            hover := False\<rparr>
                else button)
      in if current_in_area \<and> \<not> has_triggered b1 then
           let b2 = b1\<lparr>hover := True, active := True\<rparr>;
               b3 = (if in_button_area button px py then b2\<lparr>progress := progress b2 + 2\<rparr>
                     else b2\<lparr>progress := progress b2 + 1\<rparr>)
           in if progress b3 \<ge> of_int (max_progress b3) then
                let g1 = reset_game (g\<lparr>reset_button := b3\<rparr>);
                    b4 = (reset_button g1)\<lparr>has_triggered := True,
                            progress := of_int (max_progress (reset_button g1)),
                            active := False\<rparr>
                in (True, g1\<lparr>reset_button := b4\<lparr>was_in_area := current_in_area\<rparr>\<rparr>)
              else (False, g\<lparr>reset_button := b3\<lparr>was_in_area := current_in_area\<rparr>\<rparr>)
         else if current_in_area \<and> has_triggered b1 then
           (False, g\<lparr>reset_button :=
                       b1\<lparr>hover := True, active := False,
                          was_in_area := current_in_area\<rparr>\<rparr>)
         else if \<not> current_in_area then
           let b2 = b1\<lparr>hover := False, active := False\<rparr>;
               b3 = (if \<not> has_triggered b2
                     then b2\<lparr>progress := max 0 (progress b2 - 3)\<rparr> else b2)
           in (False, g\<lparr>reset_button := b3\<lparr>was_in_area := current_in_area\<rparr>\<rparr>)
         else (False, g\<lparr>reset_button := b1\<lparr>was_in_area := current_in_area\<rparr>\<rparr>))"

definition update_pause_state :: "SimpleGame \<Rightarrow> SimpleGame" where
  "update_pause_state g =
     (let g1 = (if fist_detected g \<and> \<not> last_fist_state g
                then g\<lparr>is_paused := True, pause_message_timer := 120\<rparr>
                else if \<not> fist_detected g \<and> last_fist_state g
                then g\<lparr>is_paused := False, pause_message_timer := 60\<rparr>
                else g);
          g2 = g1\<lparr>last_fist_state := fist_detected g1\<rparr>
      in if pause_message_timer g2 > 0
         then g2\<lparr>pause_message_timer := pause_message_timer g2 - 1\<rparr>
         else g2)"

section \<open>Temporal stabilizers\<close>

text \<open>
  The module-level lists \<open>fist_history\<close> and \<open>swipe_history\<close> are passed in and
  returned. \<open>pop(0)\<close> on the list just appended to is \<open>tl\<close>; the slice \<open>[-k:]\<close> of a
  list with at least \<open>k\<close> elements drops all but the last \<open>k\<close>.
\<close>

definition update_fist_detection :: "bool list \<Rightarrow> bool \<Rightarrow> bool \<times> bool list" where
  "update_fist_detection hist is_fist_detected =
     (let h1 = hist @ [is_fist_detected];
          h2 = (if length h1 > 3 then tl h1 else h1)
      in if length h2 \<ge> 2 then
           let recent_fists = drop (length h2 - 2) h2;
               consecutive_fists = length (filter (\<lambda>fist. fist) recent_fists)
           in (consecutive_fists \<ge> 1, h2)
         else (is_fist_detected, h2))"

definition update_swipe_detection ::
  "(bool \<times> real \<times> real) list \<Rightarrow> bool \<Rightarrow> real \<times> real \<Rightarrow> bool \<times> (bool \<times> real \<times> real) list"
where
  "update_swipe_detection hist is_swiping position =
     (let h1 = hist @ [(is_swiping, position)];
          h2 = (if length h1 > 10 then tl h1 else h1)
      in if length h2 \<ge> 5 then
           let recent_swipes = drop (length h2 - 5) h2;
               consecutive_swipes = length (filter (\<lambda>(swipe, pos). swipe) recent_swipes)
           in (consecutive_swipes \<ge> 3, h2)
         else (False, h2))"

text \<open>Feeding a sequence of raw samples, collecting the stabilized outputs.\<close>

fun fist_run :: "bool list \<Rightarrow> bool list \<Rightarrow> bool list \<times> bool list" where
  "fist_run hist [] = ([], hist)"
| "fist_run hist (r # rs) =
     (let (out, h1) = update_fist_detection hist r;
          (outs, h2) = fist_run h1 rs
      in (out # outs, h2))"

section \<open>The fist classifier\<close>

text \<open>
  A hand is the list of its landmarks, each with its normalized \<open>x\<close> and \<open>y\<close> (the depth
  is never read). \<open>detect_fist\<close> reads indices up to 20, so a shorter list raises
  \<open>IndexError\<close>; \<open>None\<close> stands for an absent hand. The power \<open>** 0.5\<close> of a sum of
  squares is the square root.
\<close>

type_synonym landmark = "real \<times> real"

datatype py_error = IndexError

definition finger_tips :: "nat list" where
  "finger_tips = [8, 12, 16, 20]"

definition finger_pips :: "nat list" where
  "finger_pips = [6, 10, 14, 18]"

definition finger_mcps :: "nat list" where
  "finger_mcps = [5, 9, 13, 17]"

definition detect_fist :: "landmark list option \<Rightarrow> py_error + bool" where
  "detect_fist hand_landmarks =
     (case hand_landmarks of
        None \<Rightarrow> Inr False
      | Some landmarks \<Rightarrow>
          if length landmarks < 21 then Inl IndexError
          else Inr
           (let wrist = landmarks ! 0;
                middle_mcp = landmarks ! 9;
                palm_center_x = (fst wrist + fst middle_mcp) / 2;
                palm_center_y = (snd wrist + snd middle_mcp) / 2;
                thumb_tip = landmarks ! 4;
                thumb_mcp = landmarks ! 2;
                thumb_to_palm_dist =
                  sqrt ((fst thumb_tip - palm_center_x)\<^sup>2 + (snd thumb_tip - palm_center_y)\<^sup>2);
                thumb_mcp_to_palm_dist =
                  sqrt ((fst thumb_mcp - palm_center_x)\<^sup>2 + (snd thumb_mcp - palm_center_y)\<^sup>2);
                thumb_bent = (thumb_to_palm_dist < thumb_mcp_to_palm_dist * 0.95);
                fingers_properly_bent =
                  [thumb_bent] @
                  map (\<lambda>(tip_idx, pip_idx, mcp_idx).
                         let basic_bent = (snd (landmarks ! tip_idx) > snd (landmarks ! pip_idx));
                             tip_to_palm_dist =
                               sqrt ((fst (landmarks ! tip_idx) - palm_center_x)\<^sup>2
                                     + (snd (landmarks ! tip_idx) - palm_center_y)\<^sup>2);
                             mcp_to_palm_dist =
                               sqrt ((fst (landmarks ! mcp_idx) - palm_center_x)\<^sup>2
                                     + (snd (landmarks ! mcp_idx) - palm_center_y)\<^sup>2);
                             close_to_palm = (tip_to_palm_dist < mcp_to_palm_dist * 0.9)
                         in basic_bent \<and> close_to_palm)
                      (zip finger_tips (zip finger_pips finger_mcps));
                most_fingers_bent = (length (filter (\<lambda>bent. bent) fingers_properly_bent) \<ge> 4);
                finger_tips_coords = map (\<lambda>tip_idx. landmarks ! tip_idx) finger_tips;
                max_finger_distance =
                  foldl (\<lambda>m i. max m
                           (sqrt ((fst (finger_tips_coords ! i) - fst (finger_tips_coords ! (i + 1)))\<^sup>2
                                  + (snd (finger_tips_coords ! i)
                                     - snd (finger_tips_coords ! (i + 1)))\<^sup>2)))
                        0 [0 ..< length finger_tips_coords - 1];
                hand_size = sqrt ((fst wrist - fst middle_mcp)\<^sup>2 + (snd wrist - snd middle_mcp)\<^sup>2);
                fingers_close_together = (max_finger_distance < hand_size * 0.5)
            in most_fingers_bent \<and> fingers_close_together))"

section \<open>The per-frame pipeline\<close>

text \<open>
  \<open>video_frame_callback\<close> is modelled from the point where the four detectors have
  run on each hand of the frame: a \<open>hand_obs\<close> holds what \<open>detect_pinch\<close>,
  \<open>detect_pointing\<close>, \<open>detect_left_swipe\<close> and \<open>detect_fist\<close> returned for one
  hand. Drawing is left out. The module-level \<open>game\<close>, \<open>fist_history\<close> and
  \<open>swipe_history\<close> form the state \<open>app\<close>; \<open>game\<close> is \<open>None\<close> until the first frame.
  No statement of the part modelled here can raise, so the callback's \<open>except\<close> branch
  has no counterpart.
\<close>

record hand_obs =
  obs_pinching :: bool
  obs_center :: "real \<times> real"
  obs_distance :: real
  obs_pointing :: bool
  obs_point_pos :: "real \<times> real"
  obs_swiping :: bool
  obs_swipe_pos :: "real \<times> real"
  obs_raw_fist :: bool

record gestures =
  is_pinching :: bool
  pinch_center :: "real \<times> real"
  pinch_distance :: real
  is_pointing :: bool
  point_position :: "real \<times> real"
  is_swiping :: bool
  swipe_position :: "real \<times> real"

record app =
  game :: "SimpleGame option"
  fist_history :: "bool list"
  swipe_history :: "(bool \<times> real \<times> real) list"

definition no_gestures :: gestures where
  "no_gestures =
     \<lparr>is_pinching = False, pinch_center = (0, 0), pinch_distance = 0,
      is_pointing = False, point_position = (0, 0),
      is_swiping = False, swipe_position = (0, 0)\<rparr>"

text \<open>The body of the loop over the detected hands.\<close>

definition process_hand ::
  "hand_obs \<Rightarrow> gestures \<times> SimpleGame \<times> bool list \<Rightarrow> gestures \<times> SimpleGame \<times> bool list"
where
  "process_hand h s =
     (let (gs, g, fh) = s;
          gs1 = (if obs_pinching h
                 then gs\<lparr>is_pinching := True, pinch_center := obs_center h,
                         pinch_distance := obs_distance h\<rparr>
                 else gs);
          gs2 = (if obs_pointing h
                 then gs1\<lparr>is_pointing := True, point_position := obs_point_pos h\<rparr>
                 else gs1);
          g1 = (if obs_pointing h
                then snd (check_button_hover g (fst (obs_point_pos h)) (snd (obs_point_pos h)))
                else g);
          gs3 = (if obs_swiping h
                 then gs2\<lparr>is_swiping := True, swipe_position := obs_swipe_pos h\<rparr>
                 else gs2);
          (stable_fist_detected, fh1) = update_fist_detection fh (obs_raw_fist h);
          g2 = (if stable_fist_detected then g1\<lparr>fist_detected := True\<rparr>
                else g1\<lparr>fist_detected := False\<rparr>)
      in (gs3, g2, fh1))"

fun process_hands ::
  "hand_obs list \<Rightarrow> gestures \<times> SimpleGame \<times> bool list \<Rightarrow> gestures \<times> SimpleGame \<times> bool list"
where
  "process_hands [] s = s"
| "process_hands (h # hs) s = process_hands hs (process_hand h s)"

text \<open>The block guarded by \<open>if not game.is_paused\<close>: slingshot, then button.\<close>

definition game_logic :: "gestures \<Rightarrow> SimpleGame \<Rightarrow> SimpleGame" where
  "game_logic gs g =
     (let g1 = (if is_pinching gs \<and> \<not> pulling g
                then start_pull g (fst (pinch_center gs)) (snd (pinch_center gs))
                else if is_pinching gs \<and> pulling g
                then update_pull g (fst (pinch_center gs)) (snd (pinch_center gs))
                else if \<not> is_pinching gs \<and> pulling g
                then release g
                else g)
      in if is_pointing gs
         then snd (check_button_hover g1 (fst (point_position gs)) (snd (point_position gs)))
         else snd (check_button_hover g1 (-1) (-1)))"

definition video_frame_callback :: "int \<Rightarrow> int \<Rightarrow> hand_obs list \<Rightarrow> app \<Rightarrow> app" where
  "video_frame_callback w h hands st =
     (let g0 = (case game st of None \<Rightarrow> SimpleGame_init w h | Some g \<Rightarrow> g);
          (gs, g1, fh) = process_hands hands (no_gestures, g0, fist_history st);
          g2 = update_pause_state g1;
          g3 = (if \<not> is_paused g2 then game_logic gs g2 else g2);
          (level_switched, sh) =
            update_swipe_detection (swipe_history st) (is_swiping gs) (swipe_position gs);
          g4 = (if level_switched \<and> game_won g3 \<and> \<not> is_transitioning g3
                then (if current_level g3 < max_level g3 then next_level g3 else g3)
                else g3);
          g5 = (if \<not> is_paused g4 then update g4 else g4)
      in \<lparr>game = Some g5, fist_history = fh, swipe_history = sh\<rparr>)"

section \<open>Notions used in the statements\<close>

text \<open>The boundary test of \<open>update\<close>, applied to a bird: right, bottom and left edge.\<close>

definition out_of_bounds :: "SimpleGame \<Rightarrow> SimpleBird \<Rightarrow> bool" where
  "out_of_bounds g b =
     (bird_x b > game_offset_x g + game_area_width g
      \<or> bird_y b > game_offset_y g + game_area_height g
      \<or> bird_x b < game_offset_x g)"

text \<open>
  A run of \<open>check_button_hover\<close> over a sequence of pointer positions, one call per
  position, collecting the returned flags.
\<close>

fun hover_run :: "SimpleGame \<Rightarrow> (real \<times> real) list \<Rightarrow> bool list \<times> SimpleGame" where
  "hover_run g [] = ([], g)"
| "hover_run g (p # ps) =
     (let (fired, g1) = check_button_hover g (fst p) (snd p);
          (rest, g2) = hover_run g1 ps
      in (fired # rest, g2))"

text \<open>
  The pointer positions of the hands of a frame that show a pointing gesture, in the
  order of the hands, and whether the game is paused once the hands have been processed
  and \<open>update_pause_state\<close> has run (the test that guards the game logic of the frame).
\<close>

definition pointer_positions :: "hand_obs list \<Rightarrow> (real \<times> real) list" where
  "pointer_positions hands = map obs_point_pos (filter obs_pointing hands)"

definition paused_after_hands :: "hand_obs list \<Rightarrow> SimpleGame \<Rightarrow> bool list \<Rightarrow> bool" where
  "paused_after_hands hands g fh =
     is_paused (update_pause_state (fst (snd (process_hands hands (no_gestures, g, fh)))))"

text \<open>
  The game as the frame callback has it after the loop over the hands, the pause update
  and the game logic guarded by the pause flag, that is, just before the swipe check and
  the final \<open>update\<close>.
\<close>

definition gesture_phase :: "hand_obs list \<Rightarrow> SimpleGame \<Rightarrow> bool list \<Rightarrow> SimpleGame" where
  "gesture_phase hands g fh =
     (let s1 = process_hands hands (no_gestures, g, fh);
          g2 = update_pause_state (fst (snd s1))
      in if \<not> is_paused g2 then game_logic (fst s1) g2 else g2)"

section \<open>Reachable states\<close>

text \<open>
  The module starts with no game and empty histories. From then on the state changes
  by a video frame (any list of hand observations) or by the host's reset button, which
  calls \<open>reset_game\<close> on the game if there is one.
\<close>

definition app_start :: app where
  "app_start = \<lparr>game = None, fist_history = [], swipe_history = []\<rparr>"

inductive reachable :: "int \<Rightarrow> int \<Rightarrow> app \<Rightarrow> bool" for w h where
  reach_start: "reachable w h app_start"
| reach_frame: "reachable w h st \<Longrightarrow> reachable w h (video_frame_callback w h hands st)"
| reach_reset: "reachable w h st \<Longrightarrow> game st = Some g
                 \<Longrightarrow> reachable w h (st\<lparr>game := Some (reset_game g)\<rparr>)"

section \<open>The fist rule in words\<close>

text \<open>
  The quantities the description of the classifier names: the distance of two landmarks,
  the palm center (midpoint of wrist and middle-finger base), the hand size (wrist to
  middle-finger base), the bent tests, and the number of bent fingers among the five.
\<close>

definition landmark_distance :: "landmark \<Rightarrow> landmark \<Rightarrow> real" where
  "landmark_distance a b = sqrt ((fst a - fst b)\<^sup>2 + (snd a - snd b)\<^sup>2)"

definition palm_center :: "landmark list \<Rightarrow> landmark" where
  "palm_center lms = ((fst (lms ! 0) + fst (lms ! 9)) / 2, (snd (lms ! 0) + snd (lms ! 9)) / 2)"

definition hand_size :: "landmark list \<Rightarrow> real" where
  "hand_size lms = landmark_distance (lms ! 0) (lms ! 9)"

definition thumb_bent :: "landmark list \<Rightarrow> bool" where
  "thumb_bent lms =
     (landmark_distance (lms ! 4) (palm_center lms)
        < 0.95 * landmark_distance (lms ! 2) (palm_center lms))"

definition finger_bent :: "landmark list \<Rightarrow> nat \<Rightarrow> nat \<Rightarrow> nat \<Rightarrow> bool" where
  "finger_bent lms tip pip mcp =
     (snd (lms ! tip) > snd (lms ! pip)
      \<and> landmark_distance (lms ! tip) (palm_center lms)
          < 0.90 * landmark_distance (lms ! mcp) (palm_center lms))"

definition bent_count :: "landmark list \<Rightarrow> nat" where
  "bent_count lms =
     length (filter (\<lambda>bent. bent)
       [thumb_bent lms, finger_bent lms 8 6 5, finger_bent lms 12 10 9,
        finger_bent lms 16 14 13, finger_bent lms 20 18 17])"

text \<open>
  The largest distance over all six pairs of the four non-thumb fingertips, the rule
  as the description states it, and the largest distance over the three pairs of
  neighbouring fingertips (index and middle, middle and ring, ring and pinky).
\<close>

definition max_pairwise_tip_distance :: "landmark list \<Rightarrow> real" where
  "max_pairwise_tip_distance lms =
     max (landmark_distance (lms ! 8) (lms ! 12))
       (max (landmark_distance (lms ! 8) (lms ! 16))
         (max (landmark_distance (lms ! 8) (lms ! 20))
           (max (landmark_distance (lms ! 12) (lms ! 16))
             (max (landmark_distance (lms ! 12) (lms ! 20))
               (landmark_distance (lms ! 16) (lms ! 20))))))"

definition stated_fist_rule :: "landmark list \<Rightarrow> bool" where
  "stated_fist_rule lms =
     (4 \<le> bent_count lms \<and> max_pairwise_tip_distance lms < 0.5 * hand_size lms)"

definition max_adjacent_tip_distance :: "landmark list \<Rightarrow> real" where
  "max_adjacent_tip_distance lms =
     max (landmark_distance (lms ! 8) (lms ! 12))
       (max (landmark_distance (lms ! 12) (lms ! 16))
            (landmark_distance (lms ! 16) (lms ! 20)))"

section \<open>Concrete states\<close>

text \<open>
  A game on a 640 by 480 frame: the game area is 512 by 384 at offset (64, 48), the bird
  rests at (164, 282) and the button covers x from 10 to 120 and y from 370 to 410.
\<close>

definition demo_game :: SimpleGame where
  "demo_game = SimpleGame_init 640 480"

text \<open>The same game after a pinch on the bird and a drag to the rest position minus (40, 80).\<close>

definition demo_pulled :: SimpleGame where
  "demo_pulled = update_pull (start_pull demo_game 164 282) 124 202"

text \<open>A bird just launched from (100, 300) with velocity (6, -12).\<close>

definition demo_bird :: SimpleBird where
  "demo_bird = SimpleBird_launch (SimpleBird_init 100 300) 6 (-12)"

text \<open>
  The bird dragged 60 below its rest position, released (launch velocity (0, -9)) and
  then flown for 19 physics updates: its trail holds the launch point and 19 positions.
\<close>

definition demo_flight :: SimpleBird where
  "demo_flight =
     (SimpleBird_update ^^ 19)
       (bird (release (update_pull (start_pull demo_game 164 282) 164 342)))"

text \<open>The state after the first frame, a frame without hands.\<close>

definition demo_first_frame :: app where
  "demo_first_frame = video_frame_callback 640 480 [] app_start"

text \<open>
  A won level 1 (all three targets destroyed, 300 points), the same game right after
  \<open>next_level\<close>, a hand pointing at (50, 390), inside the button rectangle, and one
  frame on the game in transition with that hand in view.
\<close>

definition demo_won :: SimpleGame where
  "demo_won =
     demo_game\<lparr>targets := map (\<lambda>t. t\<lparr>is_destroyed := True\<rparr>) (targets demo_game),
               score := 300, game_won := True\<rparr>"

definition demo_transition :: SimpleGame where
  "demo_transition = next_level demo_won"

definition pointing_hand :: hand_obs where
  "pointing_hand =
     \<lparr>obs_pinching = False, obs_center = (0, 0), obs_distance = 0,
      obs_pointing = True, obs_point_pos = (50, 390),
      obs_swiping = False, obs_swipe_pos = (0, 0), obs_raw_fist = False\<rparr>"

definition demo_transition_frame :: app where
  "demo_transition_frame =
     video_frame_callback 640 480 [pointing_hand]
       \<lparr>game = Some demo_transition, fist_history = [], swipe_history = []\<rparr>"

text \<open>
  A hand that makes a fist and nothing else, the state after a first frame that shows
  only this hand, the paused game this frame leaves behind, and the state after a second
  frame that shows a pointing hand and the fist.
\<close>

definition fist_hand :: hand_obs where
  "fist_hand =
     \<lparr>obs_pinching = False, obs_center = (0, 0), obs_distance = 0,
      obs_pointing = False, obs_point_pos = (0, 0),
      obs_swiping = False, obs_swipe_pos = (0, 0), obs_raw_fist = True\<rparr>"

definition demo_paused_app :: app where
  "demo_paused_app = video_frame_callback 640 480 [fist_hand] app_start"

definition demo_paused_game :: SimpleGame where
  "demo_paused_game =
     demo_game\<lparr>fist_detected := True, is_paused := True, last_fist_state := True,
               pause_message_timer := 119\<rparr>"

definition demo_paused_frame :: app where
  "demo_paused_frame = video_frame_callback 640 480 [pointing_hand, fist_hand] demo_paused_app"

text \<open>The state after a first frame with two hands, both pointing into the button rectangle.\<close>

definition demo_two_pointers :: app where
  "demo_two_pointers = video_frame_callback 640 480 [pointing_hand, pointing_hand] app_start"

text \<open>
  A hand with the wrist at (0.5, 0.9) and the middle-finger base at (0.5, 0.5): palm
  center (0.5, 0.7), hand size 0.4. All five fingers are curled towards the palm center,
  with the four fingertips in a row at height 0.7, 0.1 apart from one to the next, so
  that index and pinky tips are 0.3 apart.
\<close>

definition demo_hand :: "landmark list" where
  "demo_hand =
     [(0.5, 0.9),
      (0.4, 0.85), (0.3, 0.8), (0.4, 0.8), (0.45, 0.75),
      (0.3, 0.5), (0.32, 0.6), (0.33, 0.65), (0.35, 0.7),
      (0.5, 0.5), (0.46, 0.6), (0.45, 0.65), (0.45, 0.7),
      (0.6, 0.5), (0.56, 0.6), (0.55, 0.65), (0.55, 0.7),
      (0.7, 0.5), (0.68, 0.6), (0.66, 0.65), (0.65, 0.7)]"

text \<open>
  The state after \<open>n\<close> frames from the start, each showing one hand that points at
  (50, 390), inside the button rectangle.
\<close>

definition held_pointer :: "nat \<Rightarrow> app" where
  "held_pointer n = (video_frame_callback 640 480 [pointing_hand] ^^ n) app_start"

text \<open>The game that frame \<open>n + 1\<close> of this run starts from (created by the first frame).\<close>

definition held_game :: "nat \<Rightarrow> SimpleGame" where
  "held_game n =
     (case game (held_pointer n) of None \<Rightarrow> SimpleGame_init 640 480 | Some g \<Rightarrow> g)"

section \<open>Verified properties\<close>

subsection \<open>Auxiliary facts\<close>

lemma sqrt_less_iff: "0 \<le> c \<Longrightarrow> sqrt a < c \<longleftrightarrow> a < c\<^sup>2"
  by (metis abs_of_nonneg real_sqrt_abs real_sqrt_less_iff)

lemma sqrt_greater_iff: "0 \<le> c \<Longrightarrow> c < sqrt a \<longleftrightarrow> c\<^sup>2 < a"
  by (metis abs_of_nonneg real_sqrt_abs real_sqrt_less_iff)

lemma demo_game_eval:
  "game_offset_x demo_game = 64"
  "game_offset_y demo_game = 48"
  "game_area_width demo_game = 512"
  "game_area_height demo_game = 384"
  "bird demo_game = SimpleBird_init 164 282"
  "reset_button demo_game =
     \<lparr>btn_x = 10, btn_y = 370, btn_width = 110, btn_height = 40,
      clicked = False, hover = False, progress = 0, max_progress = 60,
      active = False, detection_padding = 20, fallback_activated = False,
      has_triggered = False, was_in_area = False, trigger_cooldown = 30\<rparr>"
  "targets demo_game =
     [SimpleTarget_init 476 332, SimpleTarget_init 426 282, SimpleTarget_init 376 332]"
  "pulling demo_game = False"
  "score demo_game = 0"
  "game_won demo_game = False"
  "is_paused demo_game = False"
  "fist_detected demo_game = False"
  "last_fist_state demo_game = False"
  "pause_message_timer demo_game = 0"
  "current_level demo_game = 1"
  "max_level demo_game = 5"
  "is_transitioning demo_game = False"
  "transition_progress demo_game = 0"
  by (simp_all add: demo_game_def SimpleGame_init_def init_level_def Let_def level_offsets_def)

lemma demo_pulled_eval:
  "pulling demo_pulled"
  "bird_x (bird demo_pulled) = 124"
  "bird_y (bird demo_pulled) = 202"
  "start_x (bird demo_pulled) = 164"
  "start_y (bird demo_pulled) = 282"
  by (simp_all add: demo_pulled_def update_pull_def start_pull_def demo_game_eval Let_def
      SimpleBird_init_def sqrt_less_iff sqrt_greater_iff)

subsection \<open>Flight physics\<close>

lemma bird_after_update:
  "\<not> is_transitioning g \<Longrightarrow>
   bird (update g) =
     (if out_of_bounds g (SimpleBird_update (bird g)) \<and> is_flying (bird g)
      then SimpleBird_reset (SimpleBird_update (bird g))
      else SimpleBird_update (bird g))"
proof -
  assume nt: "\<not> is_transitioning g"
  have fl: "is_flying (SimpleBird_update (bird g)) = is_flying (bird g)"
    by (simp add: SimpleBird_update_def Let_def)
  show ?thesis
    using nt fl by (simp add: update_def out_of_bounds_def Let_def split: prod.splits)
qed

lemma demo_released_eval:
  "bird (release demo_pulled) =
     \<lparr>bird_x = 124, bird_y = 202, start_x = 164, start_y = 282, bird_radius = 15,
      vel_x = 6, vel_y = 12, is_flying = True, trail = [(124, 202)]\<rparr>"
  "is_transitioning (release demo_pulled) = False"
  "game_offset_x (release demo_pulled) = 64"
  "game_offset_y (release demo_pulled) = 48"
  "game_area_width (release demo_pulled) = 512"
  "game_area_height (release demo_pulled) = 384"
  by (simp_all add: release_def demo_pulled_def update_pull_def start_pull_def
      demo_game_eval Let_def SimpleBird_init_def SimpleBird_launch_def py_int_def
      sqrt_less_iff sqrt_greater_iff)

text \<open>
  Claim C1. While the bird is flying, one physics update adds 0.3 to the vertical velocity,
  multiplies the horizontal velocity by 0.995 and then moves the position by the new
  velocity: gravity first, drag second, integration last, so the position moves by the
  updated velocity and not by the old one. Floats are read as reals. In a tick of the
  game with no transition in progress, \<open>update\<close> runs this physics update on the bird;
  the bird it leaves is the updated one unless the new position is out of bounds, in
  which case the bird is reset after the physics update.
\<close>

theorem physics_update_while_flying:
  "(is_flying b \<longrightarrow>
       vel_y (SimpleBird_update b) = vel_y b + 0.3
     \<and> vel_x (SimpleBird_update b) = 0.995 * vel_x b
     \<and> bird_x (SimpleBird_update b) = bird_x b + vel_x (SimpleBird_update b)
     \<and> bird_y (SimpleBird_update b) = bird_y b + vel_y (SimpleBird_update b)
     \<and> bird_x (SimpleBird_update b) = bird_x b + 0.995 * vel_x b
     \<and> bird_y (SimpleBird_update b) = bird_y b + (vel_y b + 0.3))
   \<and> (\<not> is_transitioning g \<and> is_flying (bird g)
        \<and> \<not> out_of_bounds g (SimpleBird_update (bird g)) \<longrightarrow>
       bird (update g) = SimpleBird_update (bird g))"
  by (simp add: bird_after_update) (simp add: SimpleBird_update_def Let_def)

theorem physics_update_while_flying_witness:
  "is_flying demo_bird
   \<and> vel_y (SimpleBird_update demo_bird) = -11.7
   \<and> vel_x (SimpleBird_update demo_bird) = 5.97
   \<and> bird_x (SimpleBird_update demo_bird) = 105.97
   \<and> bird_y (SimpleBird_update demo_bird) = 288.3
   \<and> \<not> is_transitioning (release demo_pulled)
   \<and> is_flying (bird (release demo_pulled))
   \<and> \<not> out_of_bounds (release demo_pulled) (SimpleBird_update (bird (release demo_pulled)))
   \<and> bird (update (release demo_pulled)) =
       \<lparr>bird_x = 129.97, bird_y = 214.3, start_x = 164, start_y = 282, bird_radius = 15,
        vel_x = 5.97, vel_y = 12.3, is_flying = True, trail = [(124, 202), (129, 214)]\<rparr>"
  using physics_update_while_flying [of demo_bird "release demo_pulled"]
  by (simp add: demo_bird_def SimpleBird_launch_def SimpleBird_init_def demo_released_eval
      out_of_bounds_def SimpleBird_update_def Let_def py_int_def)

subsection \<open>Releasing the slingshot\<close>

text \<open>
  Claim C2. \<open>release\<close> while pulling launches the bird with velocity
  0.15 times (start position minus current position) in each component, leaves the
  position where it is, makes the trail the single point at that position (truncated to
  integers, as the code stores it), sets the bird flying and clears \<open>pulling\<close>. While not
  pulling, \<open>release\<close> changes nothing, so a second \<open>release\<close> after the first has no effect.
\<close>

theorem release_launches_once:
  "(pulling g \<longrightarrow>
      vel_x (bird (release g)) = 0.15 * (start_x (bird g) - bird_x (bird g))
    \<and> vel_y (bird (release g)) = 0.15 * (start_y (bird g) - bird_y (bird g))
    \<and> trail (bird (release g)) = [(py_int (bird_x (bird g)), py_int (bird_y (bird g)))]
    \<and> is_flying (bird (release g))
    \<and> bird_x (bird (release g)) = bird_x (bird g)
    \<and> bird_y (bird (release g)) = bird_y (bird g)
    \<and> \<not> pulling (release g))
   \<and> (\<not> pulling g \<longrightarrow> release g = g)
   \<and> release (release g) = release g"
  by (simp add: release_def SimpleBird_launch_def Let_def)

theorem release_launches_once_witness:
  "pulling demo_pulled
   \<and> vel_x (bird (release demo_pulled)) = 6
   \<and> vel_y (bird (release demo_pulled)) = 12
   \<and> trail (bird (release demo_pulled)) = [(124, 202)]
   \<and> \<not> pulling (release demo_pulled)
   \<and> \<not> pulling demo_game
   \<and> release demo_game = demo_game"
  using release_launches_once [of demo_pulled] release_launches_once [of demo_game]
  by (simp add: demo_pulled_eval demo_game_eval py_int_def)

subsection \<open>The fist stabilizer\<close>

lemma fist_history_step:
  "snd (update_fist_detection hist r)
     = (if length hist \<ge> 3 then tl (hist @ [r]) else hist @ [r])"
  by (simp add: update_fist_detection_def Let_def)

lemma recent_two: "drop (length (zs @ [a, b]) - 2) (zs @ [a, b]) = [a, b]"
  by simp

lemma fist_output_step:
  "fst (update_fist_detection hist r) = (if hist = [] then r else (last hist \<or> r))"
proof (cases hist rule: rev_cases)
  case Nil
  then show ?thesis by (simp add: update_fist_detection_def Let_def)
next
  case (snoc ys y)
  define h2 where "h2 = (if length (hist @ [r]) > 3 then tl (hist @ [r]) else hist @ [r])"
  have "\<exists>zs. h2 = zs @ [y, r]"
  proof (cases "length (hist @ [r]) > 3")
    case True
    then have "ys \<noteq> []" using snoc by auto
    then have "h2 = tl ys @ [y, r]" using True snoc by (simp add: h2_def)
    then show ?thesis by blast
  next
    case False
    then have "h2 = ys @ [y, r]" using snoc by (simp add: h2_def)
    then show ?thesis by blast
  qed
  then obtain zs where zs: "h2 = zs @ [y, r]" by blast
  have "fst (update_fist_detection hist r)
          = (length (filter (\<lambda>fist. fist) (drop (length h2 - 2) h2)) \<ge> 1)"
    using zs by (simp add: update_fist_detection_def Let_def h2_def)
  also have "\<dots> = (y \<or> r)"
    unfolding zs recent_two by auto
  finally show ?thesis using snoc by simp
qed

text \<open>
  Claim C6. The history is first-in first-out with capacity 3: the new sample is appended
  and, when that makes four, the oldest is dropped. With an earlier sample in the history
  (so that two samples exist after the append) the output is true exactly when the
  previous or the current raw sample is true; on an empty history the raw sample is
  returned. From the empty history the raw samples false, true, true, false, true give
  false, true, true, true, true.
\<close>

theorem fist_stabilizer_window:
  "snd (update_fist_detection hist r)
     = (if length hist \<ge> 3 then tl (hist @ [r]) else hist @ [r])
   \<and> (length hist \<le> 3 \<longrightarrow> length (snd (update_fist_detection hist r)) \<le> 3)
   \<and> (hist \<noteq> [] \<longrightarrow> fst (update_fist_detection hist r) = (last hist \<or> r))
   \<and> (hist = [] \<longrightarrow> fst (update_fist_detection hist r) = r)
   \<and> fist_run [] [False, True, True, False, True]
       = ([False, True, True, True, True], [True, False, True])"
  apply (intro conjI)
      apply (simp add: fist_history_step)
     apply (simp add: fist_history_step)
    apply (simp add: fist_output_step)
   apply (simp add: fist_output_step)
  apply (simp add: update_fist_detection_def Let_def)
  done

theorem fist_stabilizer_window_witness:
  "length [True, False, False] \<le> (3::nat) \<and> [True, False, False] \<noteq> []
   \<and> update_fist_detection [True, False, False] False = (False, [False, False, False])
   \<and> update_fist_detection [] True = (True, [True])"
  using fist_stabilizer_window [of "[True, False, False]" False]
    fist_stabilizer_window [of "[]" True]
  by (simp add: update_fist_detection_def Let_def)

subsection \<open>The restart command\<close>

text \<open>
  Claim C7. In every game state \<open>reset_game\<close> puts the bird back at its start position
  with zero velocity, not flying and with an empty trail, clears the destroyed flag of
  every target (positions and radii untouched), sets the score to 0 and clears
  \<open>game_won\<close> and \<open>pulling\<close>. Every other field of the game, among them the level, the
  transition state, the pause state and the button, keeps its value.
\<close>

theorem reset_game_effect:
  "bird (reset_game g) =
     (bird g)\<lparr>bird_x := start_x (bird g), bird_y := start_y (bird g), vel_x := 0, vel_y := 0,
              is_flying := False, trail := []\<rparr>
   \<and> targets (reset_game g) = map (\<lambda>t. t\<lparr>is_destroyed := False\<rparr>) (targets g)
   \<and> list_all (\<lambda>t. \<not> is_destroyed t) (targets (reset_game g))
   \<and> score (reset_game g) = 0
   \<and> \<not> game_won (reset_game g)
   \<and> \<not> pulling (reset_game g)
   \<and> current_level (reset_game g) = current_level g
   \<and> is_transitioning (reset_game g) = is_transitioning g
   \<and> transition_progress (reset_game g) = transition_progress g
   \<and> is_paused (reset_game g) = is_paused g
   \<and> reset_game g =
       g\<lparr>bird := bird (reset_game g), targets := targets (reset_game g), score := 0,
         game_won := False, pulling := False\<rparr>"
  by (simp add: reset_game_def SimpleBird_reset_def Let_def list_all_iff)

subsection \<open>The restart button\<close>

lemma rect_in_expanded:
  "in_button_area b px py \<Longrightarrow> 0 \<le> detection_padding b \<Longrightarrow> in_expanded_area b px py"
  by (simp add: in_button_area_def in_expanded_area_def)

lemma hover_accumulate:
  assumes "in_button_area (reset_button g) px py" "0 \<le> detection_padding (reset_button g)"
    "\<not> has_triggered (reset_button g)"
    "progress (reset_button g) + 2 < of_int (max_progress (reset_button g))"
  shows "check_button_hover g px py =
           (False, g\<lparr>reset_button := (reset_button g)\<lparr>hover := True, active := True,
                       progress := progress (reset_button g) + 2, was_in_area := True\<rparr>\<rparr>)"
  using assms rect_in_expanded [OF assms(1,2)] by (simp add: check_button_hover_def Let_def)

lemma hover_fire:
  assumes "in_button_area (reset_button g) px py" "0 \<le> detection_padding (reset_button g)"
    "\<not> has_triggered (reset_button g)"
    "progress (reset_button g) + 2 \<ge> of_int (max_progress (reset_button g))"
  shows "check_button_hover g px py =
           (True, (reset_game g)\<lparr>reset_button := (reset_button g)\<lparr>hover := True, active := False,
                       progress := of_int (max_progress (reset_button g)),
                       has_triggered := True, was_in_area := True\<rparr>\<rparr>)"
  using assms rect_in_expanded [OF assms(1,2)] by (simp add: check_button_hover_def Let_def reset_game_def)

lemma hover_pinned:
  assumes "in_expanded_area (reset_button g) px py" "has_triggered (reset_button g)"
  shows "check_button_hover g px py =
           (False, g\<lparr>reset_button := (reset_button g)\<lparr>hover := True, active := False,
                       was_in_area := True\<rparr>\<rparr>)"
  using assms by (simp add: check_button_hover_def Let_def)

lemma hover_exit:
  assumes "\<not> in_expanded_area (reset_button g) px py" "was_in_area (reset_button g)"
  shows "check_button_hover g px py =
           (False, g\<lparr>reset_button := (reset_button g)\<lparr>has_triggered := False, progress := 0,
                       active := False, hover := False, was_in_area := False\<rparr>\<rparr>)"
  using assms by (simp add: check_button_hover_def Let_def)

lemma hover_run_append:
  "hover_run g (ps @ qs) =
     (let (fs, g1) = hover_run g ps; (fs', g2) = hover_run g1 qs in (fs @ fs', g2))"
  by (induction ps arbitrary: g) (simp_all add: Let_def split: prod.splits)

lemma hover_run_snoc:
  "hover_run g (replicate (Suc n) p) =
     (let (fs, g1) = hover_run g (replicate n p);
          (f, g2) = check_button_hover g1 (fst p) (snd p) in (fs @ [f], g2))"
proof -
  have "replicate (Suc n) p = replicate n p @ [p]"
    by (simp add: replicate_append_same)
  then show ?thesis
    by (simp only: hover_run_append) (simp add: Let_def split: prod.splits)
qed

lemma area_frame:
  "in_button_area (b\<lparr>hover := h, active := a, progress := pr, was_in_area := w\<rparr>) px py
     = in_button_area b px py"
  "in_expanded_area (b\<lparr>hover := h, active := a, progress := pr, was_in_area := w\<rparr>) px py
     = in_expanded_area b px py"
  "in_expanded_area (b\<lparr>hover := h, active := a, progress := pr, has_triggered := t,
                       was_in_area := w\<rparr>) px py
     = in_expanded_area b px py"
  "in_expanded_area (b\<lparr>hover := h, active := a, was_in_area := w\<rparr>) px py
     = in_expanded_area b px py"
  by (simp_all add: in_button_area_def in_expanded_area_def)

lemma hold_accumulates:
  assumes "in_button_area (reset_button g) px py" "0 \<le> detection_padding (reset_button g)"
    "progress (reset_button g) = 0" "\<not> has_triggered (reset_button g)"
    "max_progress (reset_button g) = 60"
  shows "Suc n < 30 \<Longrightarrow>
         hover_run g (replicate (Suc n) (px, py)) =
           (replicate (Suc n) False,
            g\<lparr>reset_button := (reset_button g)\<lparr>hover := True, active := True,
                 progress := 2 * real (Suc n), was_in_area := True\<rparr>\<rparr>)"
proof (induction n)
  case 0
  show ?case using hover_accumulate [OF assms(1,2,4)] assms(3,5) by simp
next
  case (Suc n)
  let ?g = "g\<lparr>reset_button := (reset_button g)\<lparr>hover := True, active := True,
                 progress := 2 * real (Suc n), was_in_area := True\<rparr>\<rparr>"
  have run: "hover_run g (replicate (Suc n) (px, py)) = (replicate (Suc n) False, ?g)"
    using Suc by simp
  have step: "check_button_hover ?g px py =
      (False, ?g\<lparr>reset_button := (reset_button ?g)\<lparr>hover := True, active := True,
                       progress := progress (reset_button ?g) + 2, was_in_area := True\<rparr>\<rparr>)"
    using Suc.prems assms by (intro hover_accumulate) (simp_all add: area_frame)
  show ?case
    unfolding hover_run_snoc [of g "Suc n"] run
    using step by (simp add: replicate_append_same algebra_simps)
qed

lemma hold_fires:
  assumes "in_button_area (reset_button g) px py" "0 \<le> detection_padding (reset_button g)"
    "progress (reset_button g) = 0" "\<not> has_triggered (reset_button g)"
    "max_progress (reset_button g) = 60"
  shows "hover_run g (replicate 30 (px, py)) =
           (replicate 29 False @ [True],
            (reset_game g)\<lparr>reset_button := (reset_button g)\<lparr>hover := True, active := False,
                 progress := 60, has_triggered := True, was_in_area := True\<rparr>\<rparr>)"
proof -
  let ?g = "g\<lparr>reset_button := (reset_button g)\<lparr>hover := True, active := True,
                 progress := 2 * real (Suc 28), was_in_area := True\<rparr>\<rparr>"
  have run: "hover_run g (replicate (Suc 28) (px, py)) = (replicate (Suc 28) False, ?g)"
    by (rule hold_accumulates [OF assms]) simp
  have step: "check_button_hover ?g px py =
      (True, (reset_game ?g)\<lparr>reset_button := (reset_button ?g)\<lparr>hover := True, active := False,
                       progress := of_int (max_progress (reset_button ?g)),
                       has_triggered := True, was_in_area := True\<rparr>\<rparr>)"
    using assms by (intro hover_fire) (simp_all add: area_frame)
  have "hover_run g (replicate (Suc (Suc 28)) (px, py)) =
          (replicate (Suc 28) False @ [True],
           (reset_game g)\<lparr>reset_button := (reset_button g)\<lparr>hover := True, active := False,
                 progress := 60, has_triggered := True, was_in_area := True\<rparr>\<rparr>)"
    unfolding hover_run_snoc [of g "Suc 28"] run
    using step assms(5) by (simp add: reset_game_def Let_def)
  then show ?thesis by (simp only: eval_nat_numeral) simp
qed

lemma pinned_run:
  assumes "has_triggered b" "\<forall>q\<in>set qs. in_expanded_area b (fst q) (snd q)"
  shows "\<exists>h a. hover_run (G\<lparr>reset_button := b\<lparr>hover := h0, active := a0, was_in_area := True\<rparr>\<rparr>) qs =
           (replicate (length qs) False,
            G\<lparr>reset_button := b\<lparr>hover := h, active := a, was_in_area := True\<rparr>\<rparr>)"
  using assms(2)
proof (induction qs arbitrary: h0 a0)
  case Nil
  show ?case by (intro exI [of _ h0] exI [of _ a0]) simp
next
  case (Cons q qs)
  let ?g = "G\<lparr>reset_button := b\<lparr>hover := h0, active := a0, was_in_area := True\<rparr>\<rparr>"
  have "check_button_hover ?g (fst q) (snd q) =
          (False, ?g\<lparr>reset_button := (reset_button ?g)\<lparr>hover := True, active := False,
                       was_in_area := True\<rparr>\<rparr>)"
    using Cons.prems assms(1) by (intro hover_pinned) (simp_all add: area_frame)
  then have step: "check_button_hover ?g (fst q) (snd q) =
          (False, G\<lparr>reset_button := b\<lparr>hover := True, active := False, was_in_area := True\<rparr>\<rparr>)"
    by simp
  from Cons.IH [where ?h0.0 = True and ?a0.0 = False] Cons.prems
  obtain h a where
    "hover_run (G\<lparr>reset_button := b\<lparr>hover := True, active := False, was_in_area := True\<rparr>\<rparr>) qs =
       (replicate (length qs) False,
        G\<lparr>reset_button := b\<lparr>hover := h, active := a, was_in_area := True\<rparr>\<rparr>)"
    by auto
  with step show ?case by (intro exI [of _ h] exI [of _ a]) simp
qed

text \<open>
  The button state machine by itself, call by call. Take a button with progress 0 and not
  triggered (maximum progress 60, padding not negative) and keep the pointer inside the
  literal button rectangle. For every \<open>n\<close> below 30 the first \<open>n\<close> calls of
  \<open>check_button_hover\<close> all return false, progress stands at \<open>2 n\<close>, the button is not
  triggered and nothing but the button has changed. The 30th call returns true: it has
  run \<open>reset_game\<close>, set the triggered flag and pinned progress at 60. After that, along
  any sequence of pointer positions inside the expanded rectangle no call returns true,
  the flag stays set and progress stays 60; the first call with the pointer outside the
  expanded rectangle clears the flag and resets progress to 0.
\<close>

theorem button_fires_on_tick_30:
  assumes "in_button_area (reset_button g) px py"
    and "0 \<le> detection_padding (reset_button g)"
    and "progress (reset_button g) = 0"
    and "\<not> has_triggered (reset_button g)"
    and "max_progress (reset_button g) = 60"
  shows
    "(\<forall>n<30. fst (hover_run g (replicate n (px, py))) = replicate n False
        \<and> progress (reset_button (snd (hover_run g (replicate n (px, py))))) = 2 * real n
        \<and> \<not> has_triggered (reset_button (snd (hover_run g (replicate n (px, py)))))
        \<and> (snd (hover_run g (replicate n (px, py))))\<lparr>reset_button := reset_button g\<rparr> = g)
     \<and> fst (hover_run g (replicate 30 (px, py))) = replicate 29 False @ [True]
     \<and> has_triggered (reset_button (snd (hover_run g (replicate 30 (px, py)))))
     \<and> progress (reset_button (snd (hover_run g (replicate 30 (px, py))))) = 60
     \<and> (snd (hover_run g (replicate 30 (px, py))))\<lparr>reset_button := reset_button g\<rparr>
          = reset_game g
     \<and> (\<forall>qs. (\<forall>q\<in>set qs. in_expanded_area (reset_button g) (fst q) (snd q)) \<longrightarrow>
          fst (hover_run (snd (hover_run g (replicate 30 (px, py)))) qs)
            = replicate (length qs) False
        \<and> has_triggered
            (reset_button (snd (hover_run (snd (hover_run g (replicate 30 (px, py)))) qs)))
        \<and> progress
            (reset_button (snd (hover_run (snd (hover_run g (replicate 30 (px, py)))) qs))) = 60
        \<and> (snd (hover_run (snd (hover_run g (replicate 30 (px, py)))) qs))
              \<lparr>reset_button := reset_button g\<rparr> = reset_game g
        \<and> (\<forall>qx qy. \<not> in_expanded_area (reset_button g) qx qy \<longrightarrow>
              \<not> fst (check_button_hover
                       (snd (hover_run (snd (hover_run g (replicate 30 (px, py)))) qs)) qx qy)
            \<and> \<not> has_triggered (reset_button (snd (check_button_hover
                       (snd (hover_run (snd (hover_run g (replicate 30 (px, py)))) qs)) qx qy)))
            \<and> progress (reset_button (snd (check_button_hover
                       (snd (hover_run (snd (hover_run g (replicate 30 (px, py)))) qs)) qx qy)))
                = 0))"
proof (intro conjI allI impI)
  fix n :: nat
  assume n: "n < 30"
  show "fst (hover_run g (replicate n (px, py))) = replicate n False"
    using n hold_accumulates [OF assms, of "n - 1"] by (cases n) simp_all
  show "progress (reset_button (snd (hover_run g (replicate n (px, py))))) = 2 * real n"
    using n hold_accumulates [OF assms, of "n - 1"] assms(3) by (cases n) simp_all
  show "\<not> has_triggered (reset_button (snd (hover_run g (replicate n (px, py)))))"
    using n hold_accumulates [OF assms, of "n - 1"] assms(4) by (cases n) simp_all
  show "(snd (hover_run g (replicate n (px, py))))\<lparr>reset_button := reset_button g\<rparr> = g"
    using n hold_accumulates [OF assms, of "n - 1"] by (cases n) simp_all
next
  show "fst (hover_run g (replicate 30 (px, py))) = replicate 29 False @ [True]"
    by (simp add: hold_fires [OF assms])
  show "has_triggered (reset_button (snd (hover_run g (replicate 30 (px, py)))))"
    by (simp add: hold_fires [OF assms])
  show "progress (reset_button (snd (hover_run g (replicate 30 (px, py))))) = 60"
    by (simp add: hold_fires [OF assms])
  show "(snd (hover_run g (replicate 30 (px, py))))\<lparr>reset_button := reset_button g\<rparr>
          = reset_game g"
    by (simp add: hold_fires [OF assms] reset_game_def Let_def)
next
  fix qs
  assume qs: "\<forall>q\<in>set qs. in_expanded_area (reset_button g) (fst q) (snd q)"
  let ?b = "(reset_button g)\<lparr>progress := 60, has_triggered := True\<rparr>"
  let ?g30 = "snd (hover_run g (replicate 30 (px, py)))"
  have g30: "?g30 = (reset_game g)\<lparr>reset_button := ?b\<lparr>hover := True, active := False,
                       was_in_area := True\<rparr>\<rparr>"
    by (simp add: hold_fires [OF assms])
  have "\<forall>q\<in>set qs. in_expanded_area ?b (fst q) (snd q)"
    using qs by (simp add: in_expanded_area_def)
  from pinned_run [where b = ?b and qs = qs and G = "reset_game g" and ?h0.0 = True and ?a0.0 = False, OF _ this]
  obtain h a where run:
    "hover_run ?g30 qs = (replicate (length qs) False,
        (reset_game g)\<lparr>reset_button := ?b\<lparr>hover := h, active := a, was_in_area := True\<rparr>\<rparr>)"
    unfolding g30 by auto
  show "fst (hover_run ?g30 qs) = replicate (length qs) False"
    by (simp add: run)
  show "has_triggered (reset_button (snd (hover_run ?g30 qs)))"
    by (simp add: run)
  show "progress (reset_button (snd (hover_run ?g30 qs))) = 60"
    by (simp add: run)
  show "(snd (hover_run ?g30 qs))\<lparr>reset_button := reset_button g\<rparr> = reset_game g"
    by (simp add: run reset_game_def Let_def)
  fix qx qy
  assume out: "\<not> in_expanded_area (reset_button g) qx qy"
  let ?gq = "(reset_game g)\<lparr>reset_button := ?b\<lparr>hover := h, active := a, was_in_area := True\<rparr>\<rparr>"
  have exit: "check_button_hover ?gq qx qy =
           (False, ?gq\<lparr>reset_button := (reset_button ?gq)\<lparr>has_triggered := False, progress := 0,
                       active := False, hover := False, was_in_area := False\<rparr>\<rparr>)"
    using out by (intro hover_exit) (simp_all add: in_expanded_area_def)
  show "\<not> fst (check_button_hover (snd (hover_run ?g30 qs)) qx qy)"
    unfolding run snd_conv exit by simp
  show "\<not> has_triggered (reset_button (snd (check_button_hover (snd (hover_run ?g30 qs)) qx qy)))"
    unfolding run snd_conv exit by simp
  show "progress (reset_button (snd (check_button_hover (snd (hover_run ?g30 qs)) qx qy))) = 0"
    unfolding run snd_conv exit by simp
qed

theorem button_fires_on_tick_30_witness:
  "in_button_area (reset_button demo_game) 50 390
   \<and> 0 \<le> detection_padding (reset_button demo_game)
   \<and> progress (reset_button demo_game) = 0
   \<and> \<not> has_triggered (reset_button demo_game)
   \<and> max_progress (reset_button demo_game) = 60
   \<and> fst (hover_run demo_game (replicate 29 (50, 390))) = replicate 29 False
   \<and> progress (reset_button (snd (hover_run demo_game (replicate 29 (50, 390))))) = 58
   \<and> fst (hover_run demo_game (replicate 30 (50, 390))) = replicate 29 False @ [True]
   \<and> progress (reset_button (snd (hover_run demo_game (replicate 30 (50, 390))))) = 60
   \<and> in_expanded_area (reset_button demo_game) 125 365
   \<and> fst (hover_run (snd (hover_run demo_game (replicate 30 (50, 390)))) [(125, 365)]) = [False]
   \<and> \<not> in_expanded_area (reset_button demo_game) (-1) (-1)
   \<and> progress (reset_button (snd (check_button_hover
         (snd (hover_run (snd (hover_run demo_game (replicate 30 (50, 390)))) [(125, 365)]))
         (-1) (-1)))) = 0"
proof -
  have hyps: "in_button_area (reset_button demo_game) 50 390"
    "0 \<le> detection_padding (reset_button demo_game)"
    "progress (reset_button demo_game) = 0"
    "\<not> has_triggered (reset_button demo_game)"
    "max_progress (reset_button demo_game) = 60"
    by (simp_all add: demo_game_eval in_button_area_def)
  have regions: "in_expanded_area (reset_button demo_game) 125 365"
    "\<not> in_expanded_area (reset_button demo_game) (-1) (-1)"
    by (simp_all add: demo_game_eval in_expanded_area_def)
  note main = button_fires_on_tick_30 [OF hyps]
  have early: "fst (hover_run demo_game (replicate 29 (50, 390))) = replicate 29 False"
    "progress (reset_button (snd (hover_run demo_game (replicate 29 (50, 390))))) = 58"
    using main by simp_all
  have later: "fst (hover_run (snd (hover_run demo_game (replicate 30 (50, 390)))) [(125, 365)]) = [False]"
    "progress (reset_button (snd (check_button_hover
         (snd (hover_run (snd (hover_run demo_game (replicate 30 (50, 390)))) [(125, 365)]))
         (-1) (-1)))) = 0"
    using main regions by (auto simp del: hover_run.simps)
  show ?thesis using hyps regions main early later by (simp del: hover_run.simps)
qed

subsection \<open>The trail\<close>

lemma demo_launched_eval:
  "bird (release (update_pull (start_pull demo_game 164 282) 164 342)) =
     \<lparr>bird_x = 164, bird_y = 342, start_x = 164, start_y = 282, bird_radius = 15,
      vel_x = 0, vel_y = -9, is_flying = True, trail = [(164, 342)]\<rparr>"
  by (simp add: release_def update_pull_def start_pull_def demo_game_eval Let_def
      SimpleBird_init_def SimpleBird_launch_def py_int_def sqrt_less_iff sqrt_greater_iff)

lemma demo_flight_eval:
  "demo_flight =
     \<lparr>bird_x = 164, bird_y = 228, start_x = 164, start_y = 282, bird_radius = 15,
      vel_x = 0, vel_y = -3.3, is_flying = True,
      trail = [(164, 342), (164, 333), (164, 324), (164, 316), (164, 309), (164, 301),
               (164, 294), (164, 287), (164, 280), (164, 274), (164, 268), (164, 262),
               (164, 257), (164, 252), (164, 247), (164, 243), (164, 238), (164, 234),
               (164, 231), (164, 228)]\<rparr>"
  unfolding demo_flight_def demo_launched_eval
  by (simp add: eval_nat_numeral SimpleBird_update_def Let_def py_int_def)

text \<open>
  Against claim C9 as stated: the bird of \<open>demo_flight\<close> is flying with 20 trail entries.
  One more physics update moves it to (164, 225) and leaves the trail as it was: the
  oldest entry (164, 342) is still the head, the last entry is still (164, 228), and the
  new position is not recorded.
\<close>

theorem full_trail_not_evicted:
  "is_flying demo_flight
   \<and> length (trail demo_flight) = 20
   \<and> bird_y (SimpleBird_update demo_flight) = 225
   \<and> trail (SimpleBird_update demo_flight) = trail demo_flight
   \<and> trail (SimpleBird_update demo_flight) \<noteq> tl (trail demo_flight) @ [(164, 225)]
   \<and> last (trail (SimpleBird_update demo_flight)) = (164, 228)
   \<and> hd (trail (SimpleBird_update demo_flight)) = (164, 342)"
  by (simp add: demo_flight_eval SimpleBird_update_def Let_def)


lemma trail_bird_update:
  "length (trail b) \<le> 20 \<Longrightarrow> length (trail (SimpleBird_update b)) \<le> 20"
  by (simp add: SimpleBird_update_def Let_def)

lemma trail_check_button_hover:
  "length (trail (bird g)) \<le> 20
   \<Longrightarrow> length (trail (bird (snd (check_button_hover g px py)))) \<le> 20"
  by (simp add: check_button_hover_def Let_def reset_game_def SimpleBird_reset_def)

lemma trail_start_pull:
  "length (trail (bird g)) \<le> 20 \<Longrightarrow> length (trail (bird (start_pull g px py))) \<le> 20"
  by (simp add: start_pull_def)

lemma trail_update_pull:
  "length (trail (bird g)) \<le> 20 \<Longrightarrow> length (trail (bird (update_pull g px py))) \<le> 20"
  by (simp add: update_pull_def Let_def split: prod.splits)

lemma trail_release:
  "length (trail (bird g)) \<le> 20 \<Longrightarrow> length (trail (bird (release g))) \<le> 20"
  by (simp add: release_def Let_def SimpleBird_launch_def)

lemma trail_next_level:
  "length (trail (bird g)) \<le> 20 \<Longrightarrow> length (trail (bird (next_level g))) \<le> 20"
  by (simp add: next_level_def start_transition_def Let_def)

lemma trail_update_pause_state:
  "length (trail (bird g)) \<le> 20 \<Longrightarrow> length (trail (bird (update_pause_state g))) \<le> 20"
  by (simp add: update_pause_state_def Let_def)

lemma trail_reset_game: "length (trail (bird (reset_game g))) \<le> 20"
  by (simp add: reset_game_def Let_def SimpleBird_reset_def)

lemma trail_init: "length (trail (bird (SimpleGame_init w h))) \<le> 20"
  by (simp add: SimpleGame_init_def Let_def init_level_def SimpleBird_init_def)

lemma trail_update:
  "length (trail (bird g)) \<le> 20 \<Longrightarrow> length (trail (bird (update g))) \<le> 20"
  using trail_bird_update [of "bird g"]
  by (simp add: update_def update_transition_def init_level_def SimpleBird_init_def
      SimpleBird_reset_def Let_def split: prod.splits)

lemma trail_game_logic:
  "length (trail (bird g)) \<le> 20 \<Longrightarrow> length (trail (bird (game_logic gs g))) \<le> 20"
  unfolding game_logic_def Let_def
  by (auto intro!: trail_check_button_hover trail_start_pull trail_update_pull trail_release)

lemma trail_process_hand:
  "length (trail (bird (fst (snd s)))) \<le> 20
   \<Longrightarrow> length (trail (bird (fst (snd (process_hand h s))))) \<le> 20"
  using trail_check_button_hover [of "fst (snd s)"]
  by (cases s) (auto simp add: process_hand_def Let_def split: prod.splits)

lemma trail_process_hands:
  "length (trail (bird (fst (snd s)))) \<le> 20
   \<Longrightarrow> length (trail (bird (fst (snd (process_hands hs s))))) \<le> 20"
  by (induction hs arbitrary: s) (simp_all add: trail_process_hand)

lemma trail_video_frame_callback:
  assumes "\<And>g. game st = Some g \<Longrightarrow> length (trail (bird g)) \<le> 20"
    and "game (video_frame_callback w h hands st) = Some g'"
  shows "length (trail (bird g')) \<le> 20"
proof -
  define g0 where "g0 = (case game st of None \<Rightarrow> SimpleGame_init w h | Some g \<Rightarrow> g)"
  have g0: "length (trail (bird g0)) \<le> 20"
    using assms(1) trail_init by (simp add: g0_def split: option.splits)
  define s1 where "s1 = process_hands hands (no_gestures, g0, fist_history st)"
  have s1: "length (trail (bird (fst (snd s1)))) \<le> 20"
    unfolding s1_def by (rule trail_process_hands) (simp add: g0)
  define g2 where "g2 = update_pause_state (fst (snd s1))"
  have g2: "length (trail (bird g2)) \<le> 20"
    unfolding g2_def by (rule trail_update_pause_state [OF s1])
  define g3 where "g3 = (if \<not> is_paused g2 then game_logic (fst s1) g2 else g2)"
  have g3: "length (trail (bird g3)) \<le> 20"
    unfolding g3_def using g2 by (simp add: trail_game_logic)
  define sw where "sw = fst (update_swipe_detection (swipe_history st)
                              (is_swiping (fst s1)) (swipe_position (fst s1)))"
  define g4 where "g4 = (if sw \<and> game_won g3 \<and> \<not> is_transitioning g3
                then (if current_level g3 < max_level g3 then next_level g3 else g3)
                else g3)"
  have g4: "length (trail (bird g4)) \<le> 20"
    unfolding g4_def using g3 by (simp add: trail_next_level)
  define g5 where "g5 = (if \<not> is_paused g4 then update g4 else g4)"
  have g5: "length (trail (bird g5)) \<le> 20"
    unfolding g5_def using g4 by (simp add: trail_update)
  have "game (video_frame_callback w h hands st) = Some g5"
    unfolding video_frame_callback_def g5_def g4_def sw_def g3_def g2_def s1_def g0_def
    by (simp add: Let_def split: prod.splits)
  with assms(2) g5 show ?thesis by simp
qed

lemma reachable_trail:
  "reachable w h st \<Longrightarrow> game st = Some g \<Longrightarrow> length (trail (bird g)) \<le> 20"
proof (induction arbitrary: g rule: reachable.induct)
  case reach_start
  then show ?case by (simp add: app_start_def)
next
  case (reach_frame st hands)
  show ?case
    by (rule trail_video_frame_callback [OF reach_frame.IH reach_frame.prems])
next
  case (reach_reset st g0)
  then show ?case using trail_reset_game [of g0] by simp
qed

lemma demo_first_frame_eval: "game demo_first_frame = Some demo_game"
  by (simp add: demo_first_frame_def video_frame_callback_def app_start_def no_gestures_def
      update_swipe_detection_def update_pause_state_def game_logic_def
      check_button_hover_def in_expanded_area_def update_def SimpleBird_update_def
      check_collision_def SimpleBird_init_def SimpleTarget_init_def
      demo_game_def SimpleGame_init_def init_level_def level_offsets_def
      Let_def sqrt_less_iff)

text \<open>
  Claim C9, amended. In every reachable state the trail has at most 20 entries. A physics
  update of a flying bird appends the new position (truncated to integers) while fewer
  than 20 entries exist, and leaves the trail unchanged once 20 exist: nothing is
  evicted, and later positions are not recorded. A bird that is not flying keeps its
  trail, a reset empties it and a launch makes it the single launch point.
\<close>

theorem trail_bounded_without_eviction:
  "(reachable w h st \<and> game st = Some g \<longrightarrow> length (trail (bird g)) \<le> 20)
   \<and> (is_flying b \<and> length (trail b) < 20 \<longrightarrow>
        trail (SimpleBird_update b) =
          trail b @ [(py_int (bird_x (SimpleBird_update b)),
                      py_int (bird_y (SimpleBird_update b)))])
   \<and> (20 \<le> length (trail b) \<longrightarrow> trail (SimpleBird_update b) = trail b)
   \<and> (\<not> is_flying b \<longrightarrow> trail (SimpleBird_update b) = trail b)
   \<and> trail (SimpleBird_reset b) = []
   \<and> trail (SimpleBird_launch b vx vy) = [(py_int (bird_x b), py_int (bird_y b))]"
  using reachable_trail [of w h st g]
  by (simp add: SimpleBird_update_def SimpleBird_reset_def SimpleBird_launch_def Let_def)

theorem trail_bounded_without_eviction_witness:
  "reachable 640 480 demo_first_frame
   \<and> game demo_first_frame = Some demo_game
   \<and> length (trail (bird demo_game)) \<le> 20
   \<and> is_flying demo_bird \<and> length (trail demo_bird) < 20
   \<and> trail (SimpleBird_update demo_bird) = [(100, 300), (105, 288)]
   \<and> 20 \<le> length (trail demo_flight)
   \<and> trail (SimpleBird_update demo_flight) = trail demo_flight
   \<and> \<not> is_flying (bird demo_game)
   \<and> trail (SimpleBird_update (bird demo_game)) = []"
proof -
  have r: "reachable 640 480 demo_first_frame"
    unfolding demo_first_frame_def by (rule reach_frame [OF reach_start])
  have b: "is_flying demo_bird" "length (trail demo_bird) < 20" "trail demo_bird = [(100, 300)]"
    "py_int (bird_x (SimpleBird_update demo_bird)) = 105"
    "py_int (bird_y (SimpleBird_update demo_bird)) = 288"
    by (simp_all add: demo_bird_def SimpleBird_launch_def SimpleBird_init_def
        SimpleBird_update_def Let_def py_int_def)
  have f: "20 \<le> length (trail demo_flight)"
    by (simp add: demo_flight_eval)
  have s: "\<not> is_flying (bird demo_game)" "trail (bird demo_game) = []"
    by (simp_all add: demo_game_eval SimpleBird_init_def)
  show ?thesis
    using r demo_first_frame_eval b f s
      trail_bounded_without_eviction [of 640 480 demo_first_frame demo_game demo_bird]
      trail_bounded_without_eviction [of 640 480 demo_first_frame demo_game demo_flight]
      trail_bounded_without_eviction [of 640 480 demo_first_frame demo_game "bird demo_game"]
    by simp
qed

subsection \<open>The frame callback and the button\<close>

lemma frame_steps:
  "video_frame_callback w h hands st =
     (let g0 = (case game st of None \<Rightarrow> SimpleGame_init w h | Some g \<Rightarrow> g);
          s1 = process_hands hands (no_gestures, g0, fist_history st);
          g2 = update_pause_state (fst (snd s1));
          g3 = (if \<not> is_paused g2 then game_logic (fst s1) g2 else g2);
          sw = update_swipe_detection (swipe_history st) (is_swiping (fst s1))
                 (swipe_position (fst s1));
          g4 = (if fst sw \<and> game_won g3 \<and> \<not> is_transitioning g3
                then (if current_level g3 < max_level g3 then next_level g3 else g3)
                else g3);
          g5 = (if \<not> is_paused g4 then update g4 else g4)
      in \<lparr>game = Some g5, fist_history = snd (snd s1), swipe_history = snd sw\<rparr>)"
  by (simp add: video_frame_callback_def Let_def split: prod.splits)

lemma frame_staged:
  assumes "g0 = (case game st of None \<Rightarrow> SimpleGame_init w h | Some g \<Rightarrow> g)"
    and "s1 = process_hands hands (no_gestures, g0, fist_history st)"
    and "g2 = update_pause_state (fst (snd s1))"
    and "g3 = (if \<not> is_paused g2 then game_logic (fst s1) g2 else g2)"
    and "sw = update_swipe_detection (swipe_history st) (is_swiping (fst s1))
                (swipe_position (fst s1))"
    and "g4 = (if fst sw \<and> game_won g3 \<and> \<not> is_transitioning g3
               then (if current_level g3 < max_level g3 then next_level g3 else g3)
               else g3)"
    and "g5 = (if \<not> is_paused g4 then update g4 else g4)"
  shows "video_frame_callback w h hands st
           = \<lparr>game = Some g5, fist_history = snd (snd s1), swipe_history = snd sw\<rparr>"
  unfolding assms frame_steps Let_def by (rule refl)

lemma button_check_button_hover_cong:
  "reset_button g = reset_button g'
   \<Longrightarrow> reset_button (snd (check_button_hover g px py))
       = reset_button (snd (check_button_hover g' px py))"
  by (simp add: check_button_hover_def Let_def reset_game_def)

lemma hover_run_Cons:
  "snd (hover_run g (p # ps)) = snd (hover_run (snd (check_button_hover g (fst p) (snd p))) ps)"
  "fst (hover_run g (p # ps))
     = fst (check_button_hover g (fst p) (snd p))
       # fst (hover_run (snd (check_button_hover g (fst p) (snd p))) ps)"
  by (simp_all add: Let_def case_prod_beta)

lemma button_hover_run_cong:
  "reset_button g = reset_button g'
   \<Longrightarrow> reset_button (snd (hover_run g ps)) = reset_button (snd (hover_run g' ps))"
proof (induction ps arbitrary: g g')
  case Nil
  then show ?case by simp
next
  case (Cons p ps)
  have "reset_button (snd (check_button_hover g (fst p) (snd p)))
          = reset_button (snd (check_button_hover g' (fst p) (snd p)))"
    by (rule button_check_button_hover_cong [OF Cons.prems])
  from Cons.IH [OF this] show ?case
    by (simp only: hover_run_Cons)
qed

lemma button_frame:
  "reset_button (start_pull g px py) = reset_button g"
  "reset_button (update_pull g px py) = reset_button g"
  "reset_button (release g) = reset_button g"
  "reset_button (next_level g) = reset_button g"
  "reset_button (update_pause_state g) = reset_button g"
  "reset_button (update g) = reset_button g"
  by (simp_all add: start_pull_def update_pull_def release_def next_level_def
      start_transition_def update_pause_state_def update_def update_transition_def
      init_level_def Let_def split: prod.splits)

lemma button_process_hand:
  "reset_button (fst (snd (process_hand h (gs, g, fh))))
     = reset_button (if obs_pointing h
                     then snd (check_button_hover g (fst (obs_point_pos h)) (snd (obs_point_pos h)))
                     else g)"
  by (simp add: process_hand_def Let_def split: prod.splits)

lemma button_process_hands:
  "reset_button (fst (snd (process_hands hands (gs, g, fh))))
     = reset_button (snd (hover_run g (pointer_positions hands)))"
proof (induction hands arbitrary: gs g fh)
  case Nil
  show ?case by (simp add: pointer_positions_def)
next
  case (Cons h hs)
  obtain gs1 g1 fh1 where step: "process_hand h (gs, g, fh) = (gs1, g1, fh1)"
    by (cases "process_hand h (gs, g, fh)") auto
  have g1: "reset_button g1
     = reset_button (if obs_pointing h
                     then snd (check_button_hover g (fst (obs_point_pos h)) (snd (obs_point_pos h)))
                     else g)"
    using button_process_hand [of h gs g fh] step by simp
  have "reset_button (fst (snd (process_hands (h # hs) (gs, g, fh))))
          = reset_button (snd (hover_run g1 (pointer_positions hs)))"
    using Cons.IH [of gs1 g1 fh1] step by simp
  also have "\<dots> = reset_button (snd (hover_run g (pointer_positions (h # hs))))"
  proof (cases "obs_pointing h")
    case True
    have "reset_button (snd (hover_run g1 (pointer_positions hs)))
        = reset_button (snd (hover_run
            (snd (check_button_hover g (fst (obs_point_pos h)) (snd (obs_point_pos h))))
            (pointer_positions hs)))"
      by (rule button_hover_run_cong) (simp add: g1 True)
    then show ?thesis
      using True by (simp add: pointer_positions_def hover_run_Cons del: hover_run.simps)
  next
    case False
    have "reset_button (snd (hover_run g1 (pointer_positions hs)))
        = reset_button (snd (hover_run g (pointer_positions hs)))"
      by (rule button_hover_run_cong) (simp add: g1 False)
    then show ?thesis
      using False by (simp add: pointer_positions_def)
  qed
  finally show ?case .
qed

lemma gestures_process_hand:
  "is_pointing (fst (process_hand h (gs, g, fh))) = (is_pointing gs \<or> obs_pointing h)"
  "point_position (fst (process_hand h (gs, g, fh)))
     = (if obs_pointing h then obs_point_pos h else point_position gs)"
  by (simp_all add: process_hand_def Let_def split: prod.splits)

lemma gestures_process_hands:
  "is_pointing (fst (process_hands hands (gs, g, fh)))
     = (is_pointing gs \<or> pointer_positions hands \<noteq> [])
   \<and> point_position (fst (process_hands hands (gs, g, fh)))
     = (if pointer_positions hands = [] then point_position gs
        else last (pointer_positions hands))"
proof (induction hands arbitrary: gs g fh)
  case Nil
  show ?case by (simp add: pointer_positions_def)
next
  case (Cons h hs)
  obtain gs1 g1 fh1 where step: "process_hand h (gs, g, fh) = (gs1, g1, fh1)"
    by (cases "process_hand h (gs, g, fh)") auto
  have gs1: "is_pointing gs1 = (is_pointing gs \<or> obs_pointing h)"
    "point_position gs1 = (if obs_pointing h then obs_point_pos h else point_position gs)"
    using gestures_process_hand [of h gs g fh] step by simp_all
  show ?case
    using Cons.IH [of gs1 g1 fh1] step gs1
    by (auto simp add: pointer_positions_def)
qed

lemma hover_run_last:
  "snd (hover_run g (ps @ [q])) = snd (check_button_hover (snd (hover_run g ps)) (fst q) (snd q))"
  by (simp add: hover_run_append Let_def case_prod_beta)

lemma button_game_logic:
  "reset_button (game_logic gs g)
     = reset_button (snd (check_button_hover g
         (fst (if is_pointing gs then point_position gs else (-1, -1)))
         (snd (if is_pointing gs then point_position gs else (-1, -1)))))"
proof -
  define ga where "ga = (if is_pinching gs \<and> \<not> pulling g
                then start_pull g (fst (pinch_center gs)) (snd (pinch_center gs))
                else if is_pinching gs \<and> pulling g
                then update_pull g (fst (pinch_center gs)) (snd (pinch_center gs))
                else if \<not> is_pinching gs \<and> pulling g
                then release g
                else g)"
  have ga: "reset_button ga = reset_button g"
    by (simp add: ga_def button_frame)
  have "game_logic gs g = snd (check_button_hover ga
         (fst (if is_pointing gs then point_position gs else (-1, -1)))
         (snd (if is_pointing gs then point_position gs else (-1, -1))))"
    by (simp add: game_logic_def ga_def Let_def)
  then show ?thesis
    by (simp only: button_check_button_hover_cong [OF ga])
qed

lemma button_after_frame:
  assumes "g = (case game st of None \<Rightarrow> SimpleGame_init w h | Some g0 \<Rightarrow> g0)"
  shows "\<exists>g'. game (video_frame_callback w h hands st) = Some g'
           \<and> reset_button g' =
               reset_button (snd (hover_run g
                 (pointer_positions hands @
                  (if paused_after_hands hands g (fist_history st) then []
                   else [if pointer_positions hands = [] then (-1, -1)
                         else last (pointer_positions hands)]))))"
proof -
  define s1 where "s1 = process_hands hands (no_gestures, g, fist_history st)"
  define g2 where "g2 = update_pause_state (fst (snd s1))"
  define g3 where "g3 = (if \<not> is_paused g2 then game_logic (fst s1) g2 else g2)"
  define sw where "sw = update_swipe_detection (swipe_history st) (is_swiping (fst s1))
                 (swipe_position (fst s1))"
  define g4 where "g4 = (if fst sw \<and> game_won g3 \<and> \<not> is_transitioning g3
                then (if current_level g3 < max_level g3 then next_level g3 else g3)
                else g3)"
  define g5 where "g5 = (if \<not> is_paused g4 then update g4 else g4)"
  define q where "q = (if pointer_positions hands = [] then (-1, -1)
                         else last (pointer_positions hands) :: real \<times> real)"
  have frame: "game (video_frame_callback w h hands st) = Some g5"
    by (simp only: frame_staged [OF assms s1_def g2_def g3_def sw_def g4_def g5_def]
        app.select_convs)
  have paused: "paused_after_hands hands g (fist_history st) = is_paused g2"
    by (simp add: paused_after_hands_def g2_def s1_def)
  have b2: "reset_button g2 = reset_button (snd (hover_run g (pointer_positions hands)))"
    unfolding g2_def s1_def
    using button_process_hands [of hands no_gestures g "fist_history st"]
    by (simp add: button_frame)
  have gs: "(if is_pointing (fst s1) then point_position (fst s1) else (-1, -1)) = q"
    unfolding s1_def q_def
    using gestures_process_hands [of hands no_gestures g "fist_history st"]
    by (simp add: no_gestures_def)
  have b3: "reset_button g3 =
      reset_button (snd (hover_run g (pointer_positions hands @ (if is_paused g2 then [] else [q]))))"
  proof (cases "is_paused g2")
    case True
    then show ?thesis by (simp add: g3_def b2)
  next
    case False
    have "reset_button g3 = reset_button (snd (check_button_hover g2 (fst q) (snd q)))"
      using False button_game_logic [of "fst s1" g2] by (simp add: g3_def gs)
    also have "\<dots> = reset_button (snd (check_button_hover
                  (snd (hover_run g (pointer_positions hands))) (fst q) (snd q)))"
      by (rule button_check_button_hover_cong [OF b2])
    finally show ?thesis using False by (simp add: hover_run_last)
  qed
  have "reset_button g5 = reset_button g3"
    by (simp add: g5_def g4_def button_frame)
  with frame b3 paused show ?thesis
    by (simp add: q_def)
qed

lemma two_calls_progress:
  assumes "in_button_area (reset_button g) px py" "0 \<le> detection_padding (reset_button g)"
    "\<not> has_triggered (reset_button g)"
    "progress (reset_button g) + 4 \<le> of_int (max_progress (reset_button g))"
  shows "progress (reset_button (snd (hover_run g [(px, py), (px, py)])))
           = progress (reset_button g) + 4"
proof -
  let ?g1 = "g\<lparr>reset_button := (reset_button g)\<lparr>hover := True, active := True,
                       progress := progress (reset_button g) + 2, was_in_area := True\<rparr>\<rparr>"
  have first: "check_button_hover g px py = (False, ?g1)"
    using assms by (intro hover_accumulate) simp_all
  have pre: "in_button_area (reset_button ?g1) px py" "0 \<le> detection_padding (reset_button ?g1)"
    "\<not> has_triggered (reset_button ?g1)"
    using assms by (simp_all add: area_frame)
  have "progress (reset_button (snd (check_button_hover ?g1 px py)))
          = progress (reset_button g) + 4"
  proof (cases "progress (reset_button ?g1) + 2 < of_int (max_progress (reset_button ?g1))")
    case True
    show ?thesis by (simp add: hover_accumulate [OF pre True])
  next
    case False
    then have ge: "progress (reset_button ?g1) + 2 \<ge> of_int (max_progress (reset_button ?g1))"
      by simp
    show ?thesis using assms(4) False by (simp add: hover_fire [OF pre ge])
  qed
  then show ?thesis by (simp add: hover_run_Cons first del: hover_run.simps(2))
qed

lemma frame_eval:
  assumes "(case game st of None \<Rightarrow> SimpleGame_init w h | Some g \<Rightarrow> g) = g0"
    and "process_hands hands (no_gestures, g0, fist_history st) = (gs, g1, fh)"
    and "update_pause_state g1 = g2"
    and "(if \<not> is_paused g2 then game_logic gs g2 else g2) = g3"
    and "update_swipe_detection (swipe_history st) (is_swiping gs) (swipe_position gs)
           = (level_switched, sh)"
    and "(if level_switched \<and> game_won g3 \<and> \<not> is_transitioning g3
          then (if current_level g3 < max_level g3 then next_level g3 else g3)
          else g3) = g4"
    and "(if \<not> is_paused g4 then update g4 else g4) = g5"
  shows "video_frame_callback w h hands st
           = \<lparr>game = Some g5, fist_history = fh, swipe_history = sh\<rparr>"
proof -
  have 1: "g0 = (case game st of None \<Rightarrow> SimpleGame_init w h | Some g \<Rightarrow> g)"
    unfolding fst_conv snd_conv by (rule assms(1) [symmetric])
  have 2: "(gs, g1, fh) = process_hands hands (no_gestures, g0, fist_history st)"
    unfolding fst_conv snd_conv by (rule assms(2) [symmetric])
  have 3: "g2 = update_pause_state (fst (snd (gs, g1, fh)))"
    unfolding fst_conv snd_conv by (rule assms(3) [symmetric])
  have 4: "g3 = (if \<not> is_paused g2 then game_logic (fst (gs, g1, fh)) g2 else g2)"
    unfolding fst_conv snd_conv by (rule assms(4) [symmetric])
  have 5: "(level_switched, sh)
             = update_swipe_detection (swipe_history st) (is_swiping (fst (gs, g1, fh)))
                 (swipe_position (fst (gs, g1, fh)))"
    unfolding fst_conv snd_conv by (rule assms(5) [symmetric])
  have 6: "g4 = (if fst (level_switched, sh) \<and> game_won g3 \<and> \<not> is_transitioning g3
               then (if current_level g3 < max_level g3 then next_level g3 else g3)
               else g3)"
    unfolding fst_conv snd_conv by (rule assms(6) [symmetric])
  have 7: "g5 = (if \<not> is_paused g4 then update g4 else g4)"
    unfolding fst_conv snd_conv by (rule assms(7) [symmetric])
  show ?thesis
    using frame_staged [OF 1 2 3 4 5 6 7] by simp
qed

lemma demo_game_record:
  "demo_game =
     \<lparr>width = 640, height = 480, pulling = False, pull_x = 0, pull_y = 0, score = 0,
      game_won = False, is_paused = False, fist_detected = False,
      last_fist_state = False, pause_message_timer = 0,
      game_area_width = 512, game_area_height = 384,
      game_offset_x = 64, game_offset_y = 48,
      current_level = 1, max_level = 5,
      is_transitioning = False, transition_progress = 0,
      transition_direction = ''left'',
      reset_button =
        \<lparr>btn_x = 10, btn_y = 370, btn_width = 110, btn_height = 40,
         clicked = False, hover = False, progress = 0, max_progress = 60,
         active = False, detection_padding = 20, fallback_activated = False,
         has_triggered = False, was_in_area = False, trigger_cooldown = 30\<rparr>,
      bird = \<lparr>bird_x = 164, bird_y = 282, start_x = 164, start_y = 282, bird_radius = 15,
               vel_x = 0, vel_y = 0, is_flying = False, trail = []\<rparr>,
      targets =
        [\<lparr>target_x = 476, target_y = 332, target_radius = 20, is_destroyed = False\<rparr>,
         \<lparr>target_x = 426, target_y = 282, target_radius = 20, is_destroyed = False\<rparr>,
         \<lparr>target_x = 376, target_y = 332, target_radius = 20, is_destroyed = False\<rparr>]\<rparr>"
  by (simp add: demo_game_def SimpleGame_init_def init_level_def level_offsets_def
      SimpleBird_init_def SimpleTarget_init_def Let_def)

lemmas frame_defs =
  pointing_hand_def fist_hand_def no_gestures_def process_hand_def update_fist_detection_def
  update_swipe_detection_def update_pause_state_def game_logic_def
  check_button_hover_def in_expanded_area_def in_button_area_def
  update_def update_transition_def SimpleBird_update_def check_collision_def
  start_pull_def update_pull_def release_def next_level_def start_transition_def
  app_start_def sqrt_less_iff Let_def

text \<open>
  Against claim C10 as stated: on the very first frame, with two hands in view that both
  point at (50, 390) inside the button rectangle and the game not paused,
  \<open>check_button_hover\<close> runs three times (once for each hand in the loop over the hands,
  once more in the game logic) and the button progress goes from 0 to 6, not to 4.
\<close>

theorem two_pointers_three_calls:
  "progress (reset_button demo_game) = 0
   \<and> game demo_two_pointers =
       Some (demo_game\<lparr>reset_button := (reset_button demo_game)\<lparr>hover := True,
               active := True, progress := 6, was_in_area := True\<rparr>\<rparr>)"
proof -
  let ?B = "\<lambda>n. (reset_button demo_game)\<lparr>hover := True, active := True, progress := n,
                    was_in_area := True\<rparr>"
  have "video_frame_callback 640 480 [pointing_hand, pointing_hand] app_start
          = \<lparr>game = Some (demo_game\<lparr>reset_button := ?B 6\<rparr>),
             fist_history = [False, False], swipe_history = [(False, (0, 0))]\<rparr>"
  proof (rule frame_eval)
    show "(case game app_start of None \<Rightarrow> SimpleGame_init 640 480 | Some g \<Rightarrow> g) = demo_game"
      by (simp add: app_start_def demo_game_def)
    show "process_hands [pointing_hand, pointing_hand] (no_gestures, demo_game, fist_history app_start)
          = (no_gestures\<lparr>is_pointing := True, point_position := (50, 390)\<rparr>,
             demo_game\<lparr>reset_button := ?B 4\<rparr>, [False, False])"
      unfolding demo_game_record by (simp add: frame_defs)
    show "update_pause_state (demo_game\<lparr>reset_button := ?B 4\<rparr>)
          = demo_game\<lparr>reset_button := ?B 4\<rparr>"
      unfolding demo_game_record by (simp add: frame_defs)
    show "(if \<not> is_paused (demo_game\<lparr>reset_button := ?B 4\<rparr>)
           then game_logic (no_gestures\<lparr>is_pointing := True, point_position := (50, 390)\<rparr>)
                  (demo_game\<lparr>reset_button := ?B 4\<rparr>)
           else demo_game\<lparr>reset_button := ?B 4\<rparr>)
          = demo_game\<lparr>reset_button := ?B 6\<rparr>"
      unfolding demo_game_record by (simp add: frame_defs)
    show "update_swipe_detection (swipe_history app_start)
            (is_swiping (no_gestures\<lparr>is_pointing := True, point_position := (50, 390)\<rparr>))
            (swipe_position (no_gestures\<lparr>is_pointing := True, point_position := (50, 390)\<rparr>))
          = (False, [(False, (0, 0))])"
      by (simp add: frame_defs)
    show "(if False \<and> game_won (demo_game\<lparr>reset_button := ?B 6\<rparr>)
              \<and> \<not> is_transitioning (demo_game\<lparr>reset_button := ?B 6\<rparr>)
           then (if current_level (demo_game\<lparr>reset_button := ?B 6\<rparr>)
                     < max_level (demo_game\<lparr>reset_button := ?B 6\<rparr>)
                 then next_level (demo_game\<lparr>reset_button := ?B 6\<rparr>)
                 else demo_game\<lparr>reset_button := ?B 6\<rparr>)
           else demo_game\<lparr>reset_button := ?B 6\<rparr>)
          = demo_game\<lparr>reset_button := ?B 6\<rparr>"
      by simp
    show "(if \<not> is_paused (demo_game\<lparr>reset_button := ?B 6\<rparr>)
           then update (demo_game\<lparr>reset_button := ?B 6\<rparr>)
           else demo_game\<lparr>reset_button := ?B 6\<rparr>)
          = demo_game\<lparr>reset_button := ?B 6\<rparr>"
      unfolding demo_game_record by (simp add: frame_defs)
  qed
  then show ?thesis
    by (simp add: demo_two_pointers_def demo_game_eval)
qed

text \<open>
  Claim C4 on the code. After a first frame that shows a fist the game is paused, with
  button progress 0. The next frame shows a hand pointing at (50, 390) and the fist: the
  game is paused before and after this frame, no slingshot call, physics update or
  collision check runs, and yet the button progress goes from 0 to 2 (and the button
  becomes hovered and active), because the loop over the hands calls
  \<open>check_button_hover\<close> before the pause state is looked at.
\<close>

theorem paused_tick_advances_button:
  "game demo_paused_app = Some demo_paused_game
   \<and> is_paused demo_paused_game
   \<and> progress (reset_button demo_paused_game) = 0
   \<and> game demo_paused_frame =
       Some (demo_paused_game\<lparr>pause_message_timer := 118,
               reset_button := (reset_button demo_paused_game)\<lparr>hover := True,
                 active := True, progress := 2, was_in_area := True\<rparr>\<rparr>)"
proof -
  let ?P = "demo_paused_game"
  let ?B = "(reset_button demo_game)\<lparr>hover := True, active := True, progress := 2,
                    was_in_area := True\<rparr>"
  let ?gs = "no_gestures\<lparr>is_pointing := True, point_position := (50, 390)\<rparr>"
  have first: "demo_paused_app
          = \<lparr>game = Some ?P, fist_history = [True], swipe_history = [(False, (0, 0))]\<rparr>"
    unfolding demo_paused_app_def
  proof (rule frame_eval)
    show "(case game app_start of None \<Rightarrow> SimpleGame_init 640 480 | Some g \<Rightarrow> g) = demo_game"
      by (simp add: app_start_def demo_game_def)
    show "process_hands [fist_hand] (no_gestures, demo_game, fist_history app_start)
          = (no_gestures, demo_game\<lparr>fist_detected := True\<rparr>, [True])"
      unfolding demo_game_record by (simp add: frame_defs)
    show "update_pause_state (demo_game\<lparr>fist_detected := True\<rparr>) = ?P"
      unfolding demo_paused_game_def demo_game_record by (simp add: frame_defs)
    show "(if \<not> is_paused ?P then game_logic no_gestures ?P else ?P) = ?P"
      by (simp add: demo_paused_game_def)
    show "update_swipe_detection (swipe_history app_start) (is_swiping no_gestures)
            (swipe_position no_gestures) = (False, [(False, (0, 0))])"
      by (simp add: frame_defs)
    show "(if False \<and> game_won ?P \<and> \<not> is_transitioning ?P
           then (if current_level ?P < max_level ?P then next_level ?P else ?P)
           else ?P) = ?P"
      by simp
    show "(if \<not> is_paused ?P then update ?P else ?P) = ?P"
      by (simp add: demo_paused_game_def)
  qed
  let ?Q = "?P\<lparr>pause_message_timer := 118, reset_button := ?B\<rparr>"
  have second: "demo_paused_frame
          = \<lparr>game = Some ?Q, fist_history = [True, False, True],
             swipe_history = [(False, (0, 0)), (False, (0, 0))]\<rparr>"
    unfolding demo_paused_frame_def first
  proof (rule frame_eval)
    show "(case game \<lparr>game = Some ?P, fist_history = [True],
                      swipe_history = [(False, (0, 0))]\<rparr> of
             None \<Rightarrow> SimpleGame_init 640 480 | Some g \<Rightarrow> g) = ?P"
      by simp
    show "process_hands [pointing_hand, fist_hand]
            (no_gestures, ?P,
             fist_history \<lparr>game = Some ?P, fist_history = [True],
                            swipe_history = [(False, (0, 0))]\<rparr>)
          = (?gs, ?P\<lparr>reset_button := ?B\<rparr>, [True, False, True])"
      unfolding demo_paused_game_def demo_game_record by (simp add: frame_defs)
    show "update_pause_state (?P\<lparr>reset_button := ?B\<rparr>) = ?Q"
      unfolding demo_paused_game_def demo_game_record by (simp add: frame_defs)
    show "(if \<not> is_paused ?Q then game_logic ?gs ?Q else ?Q) = ?Q"
      by (simp add: demo_paused_game_def)
    show "update_swipe_detection
            (swipe_history \<lparr>game = Some ?P, fist_history = [True],
                             swipe_history = [(False, (0, 0))]\<rparr>)
            (is_swiping ?gs) (swipe_position ?gs)
          = (False, [(False, (0, 0)), (False, (0, 0))])"
      by (simp add: frame_defs)
    show "(if False \<and> game_won ?Q \<and> \<not> is_transitioning ?Q
           then (if current_level ?Q < max_level ?Q then next_level ?Q else ?Q)
           else ?Q) = ?Q"
      by simp
    show "(if \<not> is_paused ?Q then update ?Q else ?Q) = ?Q"
      by (simp add: demo_paused_game_def)
  qed
  show ?thesis
    by (simp add: first second demo_paused_game_def demo_game_eval)
qed

text \<open>
  Claim C10, amended. In every frame \<open>check_button_hover\<close> runs once for each hand that
  shows a pointing gesture, in the order of the hands and before the pause state is
  updated; if the game is then not paused it runs once more, with the position of the
  last pointing hand, or with (-1, -1) when no hand points. So the button after the frame
  is the button after that run of calls. With exactly one pointing hand, inside the
  literal button rectangle, the game not paused, the button not triggered and its
  progress at most the maximum minus 4, the progress grows by 4 in the frame.
\<close>

theorem button_calls_per_frame:
  assumes "game st = Some g"
  shows "\<exists>g'. game (video_frame_callback w h hands st) = Some g'
           \<and> reset_button g' =
               reset_button (snd (hover_run g
                 (pointer_positions hands @
                  (if paused_after_hands hands g (fist_history st) then []
                   else [if pointer_positions hands = [] then (-1, -1)
                         else last (pointer_positions hands)]))))
           \<and> (pointer_positions hands = [(px, py)]
                \<and> \<not> paused_after_hands hands g (fist_history st)
                \<and> in_button_area (reset_button g) px py
                \<and> 0 \<le> detection_padding (reset_button g)
                \<and> \<not> has_triggered (reset_button g)
                \<and> progress (reset_button g) + 4 \<le> of_int (max_progress (reset_button g))
                \<longrightarrow> progress (reset_button g') = progress (reset_button g) + 4)"
proof -
  have "g = (case game st of None \<Rightarrow> SimpleGame_init w h | Some g0 \<Rightarrow> g0)"
    using assms by simp
  from button_after_frame [OF this, of hands]
  obtain g' where g': "game (video_frame_callback w h hands st) = Some g'"
    "reset_button g' =
       reset_button (snd (hover_run g
         (pointer_positions hands @
          (if paused_after_hands hands g (fist_history st) then []
           else [if pointer_positions hands = [] then (-1, -1)
                 else last (pointer_positions hands)]))))"
    by blast
  have "progress (reset_button g') = progress (reset_button g) + 4"
    if "pointer_positions hands = [(px, py)]"
      "\<not> paused_after_hands hands g (fist_history st)"
      "in_button_area (reset_button g) px py"
      "0 \<le> detection_padding (reset_button g)"
      "\<not> has_triggered (reset_button g)"
      "progress (reset_button g) + 4 \<le> of_int (max_progress (reset_button g))"
  proof -
    have "reset_button g' = reset_button (snd (hover_run g [(px, py), (px, py)]))"
      using g'(2) that(1,2) by simp
    then show ?thesis
      using two_calls_progress [OF that(3,4,5,6)] by simp
  qed
  with g' show ?thesis by blast
qed

lemma demo_first_frame_record:
  "demo_first_frame
     = \<lparr>game = Some demo_game, fist_history = [], swipe_history = [(False, (0, 0))]\<rparr>"
  unfolding demo_first_frame_def
proof (rule frame_eval)
  show "(case game app_start of None \<Rightarrow> SimpleGame_init 640 480 | Some g \<Rightarrow> g) = demo_game"
    by (simp add: app_start_def demo_game_def)
  show "process_hands [] (no_gestures, demo_game, fist_history app_start)
          = (no_gestures, demo_game, [])"
    by (simp add: app_start_def)
  show "update_pause_state demo_game = demo_game"
    unfolding demo_game_record by (simp add: frame_defs)
  show "(if \<not> is_paused demo_game then game_logic no_gestures demo_game else demo_game)
          = demo_game"
    unfolding demo_game_record by (simp add: frame_defs)
  show "update_swipe_detection (swipe_history app_start) (is_swiping no_gestures)
            (swipe_position no_gestures) = (False, [(False, (0, 0))])"
    by (simp add: frame_defs)
  show "(if False \<and> game_won demo_game \<and> \<not> is_transitioning demo_game
           then (if current_level demo_game < max_level demo_game
                 then next_level demo_game else demo_game)
           else demo_game) = demo_game"
    by simp
  show "(if \<not> is_paused demo_game then update demo_game else demo_game) = demo_game"
    unfolding demo_game_record by (simp add: frame_defs)
qed

theorem button_calls_per_frame_witness:
  "game demo_first_frame = Some demo_game
   \<and> pointer_positions [pointing_hand] = [(50, 390)]
   \<and> \<not> paused_after_hands [pointing_hand] demo_game (fist_history demo_first_frame)
   \<and> in_button_area (reset_button demo_game) 50 390
   \<and> 0 \<le> detection_padding (reset_button demo_game)
   \<and> \<not> has_triggered (reset_button demo_game)
   \<and> progress (reset_button demo_game) + 4 \<le> of_int (max_progress (reset_button demo_game))
   \<and> progress (reset_button
        (the (game (video_frame_callback 640 480 [pointing_hand] demo_first_frame)))) = 4"
proof -
  have g: "game demo_first_frame = Some demo_game"
    by (simp add: demo_first_frame_record)
  have pp: "pointer_positions [pointing_hand] = [(50, 390)]"
    by (simp add: pointer_positions_def pointing_hand_def)
  have np: "\<not> paused_after_hands [pointing_hand] demo_game (fist_history demo_first_frame)"
    unfolding paused_after_hands_def demo_first_frame_record demo_game_record
    by (simp add: frame_defs)
  have b: "in_button_area (reset_button demo_game) 50 390"
    "0 \<le> detection_padding (reset_button demo_game)"
    "\<not> has_triggered (reset_button demo_game)"
    "progress (reset_button demo_game) + 4 \<le> of_int (max_progress (reset_button demo_game))"
    by (simp_all add: demo_game_eval in_button_area_def)
  from button_calls_per_frame [OF g, of 640 480 "[pointing_hand]" 50 390]
  obtain g' where "game (video_frame_callback 640 480 [pointing_hand] demo_first_frame) = Some g'"
    and "pointer_positions [pointing_hand] = [(50, 390)]
                \<and> \<not> paused_after_hands [pointing_hand] demo_game (fist_history demo_first_frame)
                \<and> in_button_area (reset_button demo_game) 50 390
                \<and> 0 \<le> detection_padding (reset_button demo_game)
                \<and> \<not> has_triggered (reset_button demo_game)
                \<and> progress (reset_button demo_game) + 4
                     \<le> of_int (max_progress (reset_button demo_game))
                \<longrightarrow> progress (reset_button g') = progress (reset_button demo_game) + 4"
    by blast
  with g pp np b show ?thesis
    by (simp add: demo_game_eval)
qed

subsection \<open>Level transitions\<close>

lemma demo_transition_eval:
  "is_transitioning demo_transition"
  "transition_progress demo_transition = 0"
  "current_level demo_transition = 2"
  "game_won demo_transition"
  "is_paused demo_transition = False"
  "reset_button demo_transition = reset_button demo_game"
  by (simp_all add: demo_transition_def demo_won_def next_level_def start_transition_def
      demo_game_eval Let_def)

lemma transition_step:
  "is_transitioning g \<Longrightarrow> transition_progress g + 3 < 100
   \<Longrightarrow> update g = g\<lparr>transition_progress := transition_progress g + 3\<rparr>"
  by (simp add: update_def update_transition_def Let_def)

lemma transition_done:
  "is_transitioning g \<Longrightarrow> transition_progress g + 3 \<ge> 100
   \<Longrightarrow> update g = init_level (g\<lparr>is_transitioning := False, transition_progress := 0\<rparr>)"
  by (simp add: update_def update_transition_def Let_def)

lemma transition_run:
  assumes "is_transitioning G" "transition_progress G = 0"
  shows "n \<le> 33 \<Longrightarrow> (update ^^ n) G = G\<lparr>transition_progress := 3 * int n\<rparr>"
proof (induction n)
  case 0
  show ?case using assms(2) by simp
next
  case (Suc n)
  then have run: "(update ^^ n) G = G\<lparr>transition_progress := 3 * int n\<rparr>" by simp
  have "update (G\<lparr>transition_progress := 3 * int n\<rparr>)
          = (G\<lparr>transition_progress := 3 * int n\<rparr>)
              \<lparr>transition_progress := transition_progress (G\<lparr>transition_progress := 3 * int n\<rparr>) + 3\<rparr>"
    using assms(1) Suc.prems by (intro transition_step) simp_all
  then show ?case by (simp add: run algebra_simps)
qed

lemma transition_run_done:
  assumes "is_transitioning G" "transition_progress G = 0"
  shows "(update ^^ 34) G = init_level (G\<lparr>is_transitioning := False\<rparr>)"
proof -
  have run: "(update ^^ 33) G = G\<lparr>transition_progress := 3 * int 33\<rparr>"
    by (rule transition_run [OF assms]) simp
  have "(34::nat) = Suc 33" by simp
  then have "(update ^^ 34) G = update ((update ^^ 33) G)"
    by (simp only: funpow.simps o_apply)
  also have "\<dots> = init_level (G\<lparr>transition_progress := 3 * int 33\<rparr>
                         \<lparr>is_transitioning := False, transition_progress := 0\<rparr>)"
    unfolding run using assms(1) by (intro transition_done) simp_all
  also have "\<dots> = init_level (G\<lparr>is_transitioning := False\<rparr>)"
    using assms(2) by (simp add: init_level_def)
  finally show ?thesis .
qed


lemma transition_frame_check_button_hover:
  "is_transitioning (snd (check_button_hover g px py)) = is_transitioning g"
  "transition_progress (snd (check_button_hover g px py)) = transition_progress g"
  "is_paused (snd (check_button_hover g px py)) = is_paused g"
  by (simp_all add: check_button_hover_def Let_def reset_game_def)

lemma transition_frame_sling:
  "is_transitioning (start_pull g px py) = is_transitioning g"
  "transition_progress (start_pull g px py) = transition_progress g"
  "is_paused (start_pull g px py) = is_paused g"
  "is_transitioning (update_pull g px py) = is_transitioning g"
  "transition_progress (update_pull g px py) = transition_progress g"
  "is_paused (update_pull g px py) = is_paused g"
  "is_transitioning (release g) = is_transitioning g"
  "transition_progress (release g) = transition_progress g"
  "is_paused (release g) = is_paused g"
  "is_transitioning (update_pause_state g) = is_transitioning g"
  "transition_progress (update_pause_state g) = transition_progress g"
  by (simp_all add: start_pull_def update_pull_def release_def update_pause_state_def
      Let_def split: prod.splits)

lemma transition_frame_game_logic:
  "is_transitioning (game_logic gs g) = is_transitioning g"
  "transition_progress (game_logic gs g) = transition_progress g"
  "is_paused (game_logic gs g) = is_paused g"
  by (simp_all add: game_logic_def Let_def transition_frame_check_button_hover
      transition_frame_sling)

lemma transition_frame_process_hand:
  "is_transitioning (fst (snd (process_hand h (gs, g, fh)))) = is_transitioning g"
  "transition_progress (fst (snd (process_hand h (gs, g, fh)))) = transition_progress g"
  by (simp_all add: process_hand_def Let_def transition_frame_check_button_hover
      split: prod.splits)

lemma transition_frame_process_hands:
  "is_transitioning (fst (snd (process_hands hands (gs, g, fh)))) = is_transitioning g
   \<and> transition_progress (fst (snd (process_hands hands (gs, g, fh)))) = transition_progress g"
proof (induction hands arbitrary: gs g fh)
  case Nil
  show ?case by simp
next
  case (Cons h hs)
  obtain gs1 g1 fh1 where step: "process_hand h (gs, g, fh) = (gs1, g1, fh1)"
    by (cases "process_hand h (gs, g, fh)") auto
  have "is_transitioning g1 = is_transitioning g" "transition_progress g1 = transition_progress g"
    using transition_frame_process_hand [of h gs g fh] step by simp_all
  then show ?case using Cons.IH [of gs1 g1 fh1] step by simp
qed

lemma transition_frame_gesture_phase:
  "is_transitioning (gesture_phase hands g fh) = is_transitioning g"
  "transition_progress (gesture_phase hands g fh) = transition_progress g"
  "is_paused (gesture_phase hands g fh) = paused_after_hands hands g fh"
  using transition_frame_process_hands [of hands no_gestures g fh]
  by (simp_all add: gesture_phase_def paused_after_hands_def Let_def
      transition_frame_game_logic transition_frame_sling)

lemma frame_during_transition:
  assumes "game st = Some g" and "is_transitioning g"
    and "\<not> paused_after_hands hands g (fist_history st)"
  shows "game (video_frame_callback w h hands st)
           = Some (update (gesture_phase hands g (fist_history st)))"
proof -
  define s1 where "s1 = process_hands hands (no_gestures, g, fist_history st)"
  define g2 where "g2 = update_pause_state (fst (snd s1))"
  define g3 where "g3 = (if \<not> is_paused g2 then game_logic (fst s1) g2 else g2)"
  define sw where "sw = update_swipe_detection (swipe_history st) (is_swiping (fst s1))
                 (swipe_position (fst s1))"
  define g4 where "g4 = (if fst sw \<and> game_won g3 \<and> \<not> is_transitioning g3
                then (if current_level g3 < max_level g3 then next_level g3 else g3)
                else g3)"
  define g5 where "g5 = (if \<not> is_paused g4 then update g4 else g4)"
  have g0: "g = (case game st of None \<Rightarrow> SimpleGame_init w h | Some g0 \<Rightarrow> g0)"
    using assms(1) by simp
  have frame: "game (video_frame_callback w h hands st) = Some g5"
    by (simp only: frame_staged [OF g0 s1_def g2_def g3_def sw_def g4_def g5_def]
        app.select_convs)
  have g3: "g3 = gesture_phase hands g (fist_history st)"
    by (simp add: g3_def g2_def s1_def gesture_phase_def Let_def)
  have "is_transitioning g3" "\<not> is_paused g3"
    using assms(2,3) by (simp_all add: g3 transition_frame_gesture_phase)
  then have "g5 = update g3"
    by (simp add: g5_def g4_def)
  with frame g3 show ?thesis by simp
qed

lemma demo_transition_record:
  "demo_transition =
     demo_game\<lparr>targets := map (\<lambda>t. t\<lparr>is_destroyed := True\<rparr>) (targets demo_game),
               score := 300, game_won := True, is_transitioning := True,
               current_level := 2\<rparr>"
  by (simp add: demo_transition_def demo_won_def next_level_def start_transition_def
      demo_game_record Let_def)

text \<open>
  Against claim C5 as stated: the game \<open>demo_transition\<close> is in a level transition and
  not paused, with button progress 0. One frame with a hand pointing at (50, 390), inside
  the button rectangle, advances the transition to 3 and, in the same tick, the button
  progress to 4 with the button hovered and active: the pointer input is processed, not
  suspended.
\<close>

theorem input_during_transition:
  "is_transitioning demo_transition
   \<and> \<not> is_paused demo_transition
   \<and> progress (reset_button demo_transition) = 0
   \<and> game demo_transition_frame =
       Some (demo_transition\<lparr>transition_progress := 3,
               reset_button := (reset_button demo_transition)\<lparr>hover := True, active := True,
                  progress := 4, was_in_area := True\<rparr>\<rparr>)"
proof -
  let ?T = "demo_transition"
  let ?B = "\<lambda>n. (reset_button demo_transition)\<lparr>hover := True, active := True, progress := n,
                    was_in_area := True\<rparr>"
  let ?gs = "no_gestures\<lparr>is_pointing := True, point_position := (50, 390)\<rparr>"
  let ?st = "\<lparr>game = Some ?T, fist_history = [], swipe_history = []\<rparr>"
  have fr: "demo_transition_frame
          = \<lparr>game = Some (?T\<lparr>transition_progress := 3, reset_button := ?B 4\<rparr>),
             fist_history = [False], swipe_history = [(False, (0, 0))]\<rparr>"
    unfolding demo_transition_frame_def
  proof (rule frame_eval)
    show "(case game ?st of None \<Rightarrow> SimpleGame_init 640 480 | Some g \<Rightarrow> g) = ?T"
      by simp
    show "process_hands [pointing_hand] (no_gestures, ?T, fist_history ?st)
          = (?gs, ?T\<lparr>reset_button := ?B 2\<rparr>, [False])"
      unfolding demo_transition_record demo_game_record by (simp add: frame_defs)
    show "update_pause_state (?T\<lparr>reset_button := ?B 2\<rparr>) = ?T\<lparr>reset_button := ?B 2\<rparr>"
      unfolding demo_transition_record demo_game_record by (simp add: frame_defs)
    show "(if \<not> is_paused (?T\<lparr>reset_button := ?B 2\<rparr>)
           then game_logic ?gs (?T\<lparr>reset_button := ?B 2\<rparr>)
           else ?T\<lparr>reset_button := ?B 2\<rparr>)
          = ?T\<lparr>reset_button := ?B 4\<rparr>"
      unfolding demo_transition_record demo_game_record by (simp add: frame_defs)
    show "update_swipe_detection (swipe_history ?st) (is_swiping ?gs) (swipe_position ?gs)
          = (False, [(False, (0, 0))])"
      by (simp add: frame_defs)
    show "(if False \<and> game_won (?T\<lparr>reset_button := ?B 4\<rparr>)
              \<and> \<not> is_transitioning (?T\<lparr>reset_button := ?B 4\<rparr>)
           then (if current_level (?T\<lparr>reset_button := ?B 4\<rparr>)
                     < max_level (?T\<lparr>reset_button := ?B 4\<rparr>)
                 then next_level (?T\<lparr>reset_button := ?B 4\<rparr>)
                 else ?T\<lparr>reset_button := ?B 4\<rparr>)
           else ?T\<lparr>reset_button := ?B 4\<rparr>)
          = ?T\<lparr>reset_button := ?B 4\<rparr>"
      by simp
    show "(if \<not> is_paused (?T\<lparr>reset_button := ?B 4\<rparr>)
           then update (?T\<lparr>reset_button := ?B 4\<rparr>)
           else ?T\<lparr>reset_button := ?B 4\<rparr>)
          = ?T\<lparr>transition_progress := 3, reset_button := ?B 4\<rparr>"
      unfolding demo_transition_record demo_game_record by (simp add: frame_defs)
  qed
  show ?thesis
    unfolding fr by (simp add: demo_transition_eval demo_game_eval)
qed

text \<open>
  Claim C5, amended. \<open>next_level\<close> changes nothing while a transition runs or when the
  level is not below the maximum. Otherwise it starts a transition at progress 0 (direction
  left) and increments the level at once. While the transition runs, each \<open>update\<close> adds
  exactly 3 to the progress and does nothing else: no physics, no collision check, no
  boundary reset, no recomputation of the win flag. The first \<open>update\<close> that brings the
  progress to 100 or more ends the transition, resets the progress to 0 and rebuilds the
  bird and the target layout from the current (already incremented) level; counted from
  \<open>next_level\<close> that is the 34th update. Gesture input is not suspended: in a frame on
  a game in transition that is not paused, the callback runs the loop over the hands, the
  pause update and the game logic (slingshot and button), which leave the transition
  state alone, and then the transition step.
\<close>

theorem level_transition:
  "(is_transitioning g \<or> max_level g \<le> current_level g \<longrightarrow> next_level g = g)
   \<and> (\<not> is_transitioning g \<and> current_level g < max_level g \<longrightarrow>
        next_level g = g\<lparr>is_transitioning := True, transition_progress := 0,
                         transition_direction := ''left'',
                         current_level := current_level g + 1\<rparr>
      \<and> (\<forall>n\<le>33. (update ^^ n) (next_level g)
                     = (next_level g)\<lparr>transition_progress := 3 * int n\<rparr>)
      \<and> (update ^^ 34) (next_level g)
          = init_level ((next_level g)\<lparr>is_transitioning := False\<rparr>))
   \<and> (is_transitioning g \<and> transition_progress g + 3 < 100 \<longrightarrow>
        update g = g\<lparr>transition_progress := transition_progress g + 3\<rparr>)
   \<and> (is_transitioning g \<and> 100 \<le> transition_progress g + 3 \<longrightarrow>
        update g = init_level (g\<lparr>is_transitioning := False, transition_progress := 0\<rparr>)
      \<and> \<not> is_transitioning (update g)
      \<and> transition_progress (update g) = 0
      \<and> current_level (update g) = current_level g
      \<and> bird (update g) = SimpleBird_init (game_offset_x g + 100)
                             (game_offset_y g + game_area_height g - 150)
      \<and> targets (update g) =
           map (\<lambda>(dx, dy). SimpleTarget_init (game_offset_x g + game_area_width g - dx)
                              (game_offset_y g + game_area_height g - dy))
               (level_offsets (current_level g)))
   \<and> (game st = Some g \<and> is_transitioning g
        \<and> \<not> paused_after_hands hands g (fist_history st) \<longrightarrow>
        game (video_frame_callback w h hands st)
          = Some (update (gesture_phase hands g (fist_history st)))
      \<and> is_transitioning (gesture_phase hands g (fist_history st))
      \<and> transition_progress (gesture_phase hands g (fist_history st)) = transition_progress g)"
proof (intro conjI impI)
  assume "is_transitioning g \<or> max_level g \<le> current_level g"
  then show "next_level g = g" by (auto simp add: next_level_def)
next
  assume a: "\<not> is_transitioning g \<and> current_level g < max_level g"
  show nl: "next_level g = g\<lparr>is_transitioning := True, transition_progress := 0,
                         transition_direction := ''left'',
                         current_level := current_level g + 1\<rparr>"
    using a by (simp add: next_level_def start_transition_def Let_def)
  have t: "is_transitioning (next_level g)" "transition_progress (next_level g) = 0"
    by (simp_all add: nl)
  show "\<forall>n\<le>33. (update ^^ n) (next_level g)
                     = (next_level g)\<lparr>transition_progress := 3 * int n\<rparr>"
    using transition_run [OF t] by blast
  show "(update ^^ 34) (next_level g) = init_level ((next_level g)\<lparr>is_transitioning := False\<rparr>)"
    by (rule transition_run_done [OF t])
next
  assume "is_transitioning g \<and> transition_progress g + 3 < 100"
  then show "update g = g\<lparr>transition_progress := transition_progress g + 3\<rparr>"
    by (simp add: transition_step)
next
  assume a: "is_transitioning g \<and> 100 \<le> transition_progress g + 3"
  then show u: "update g = init_level (g\<lparr>is_transitioning := False, transition_progress := 0\<rparr>)"
    by (simp add: transition_done)
  show "\<not> is_transitioning (update g)" by (simp add: u init_level_def)
  show "transition_progress (update g) = 0" by (simp add: u init_level_def)
  show "current_level (update g) = current_level g" by (simp add: u init_level_def)
  show "bird (update g) = SimpleBird_init (game_offset_x g + 100)
                             (game_offset_y g + game_area_height g - 150)"
    by (simp add: u init_level_def)
  show "targets (update g) =
           map (\<lambda>(dx, dy). SimpleTarget_init (game_offset_x g + game_area_width g - dx)
                              (game_offset_y g + game_area_height g - dy))
               (level_offsets (current_level g))"
    by (simp add: u init_level_def)
next
  assume a: "game st = Some g \<and> is_transitioning g
        \<and> \<not> paused_after_hands hands g (fist_history st)"
  then show "game (video_frame_callback w h hands st)
          = Some (update (gesture_phase hands g (fist_history st)))"
    by (simp add: frame_during_transition)
  show "is_transitioning (gesture_phase hands g (fist_history st))"
    using a by (simp add: transition_frame_gesture_phase)
  show "transition_progress (gesture_phase hands g (fist_history st)) = transition_progress g"
    by (simp add: transition_frame_gesture_phase)
qed

theorem level_transition_witness:
  "\<not> is_transitioning demo_game \<and> current_level demo_game < max_level demo_game
   \<and> current_level (next_level demo_game) = 2
   \<and> is_transitioning (next_level demo_game)
   \<and> transition_progress ((update ^^ 33) (next_level demo_game)) = 99
   \<and> is_transitioning ((update ^^ 33) (next_level demo_game))
   \<and> \<not> is_transitioning ((update ^^ 34) (next_level demo_game))
   \<and> length (targets ((update ^^ 34) (next_level demo_game))) = 4
   \<and> is_transitioning demo_transition
   \<and> transition_progress demo_transition + 3 < 100
   \<and> next_level demo_transition = demo_transition
   \<and> transition_progress (update demo_transition) = 3
   \<and> 100 \<le> transition_progress (demo_transition\<lparr>transition_progress := 99\<rparr>) + 3
   \<and> \<not> is_transitioning (update (demo_transition\<lparr>transition_progress := 99\<rparr>))
   \<and> \<not> paused_after_hands [pointing_hand] demo_transition []
   \<and> game demo_transition_frame
       = Some (update (gesture_phase [pointing_hand] demo_transition []))"
proof -
  have a: "\<not> is_transitioning demo_game" "current_level demo_game < max_level demo_game"
    by (simp_all add: demo_game_eval)
  note at_start = level_transition [where g = demo_game and st = app_start and hands = "[]"
      and w = 640 and h = 480]
  have nl: "next_level demo_game
      = demo_game\<lparr>is_transitioning := True, transition_progress := 0,
                   transition_direction := ''left'', current_level := current_level demo_game + 1\<rparr>"
    using at_start a by blast
  have r33: "(update ^^ 33) (next_level demo_game)
               = (next_level demo_game)\<lparr>transition_progress := 3 * int 33\<rparr>"
    using at_start a by blast
  have r34: "(update ^^ 34) (next_level demo_game)
               = init_level ((next_level demo_game)\<lparr>is_transitioning := False\<rparr>)"
    using at_start a by blast
  have p: "\<not> paused_after_hands [pointing_hand] demo_transition []"
    unfolding paused_after_hands_def demo_transition_record demo_game_record
    by (simp add: frame_defs)
  let ?st = "\<lparr>game = Some demo_transition, fist_history = [], swipe_history = []\<rparr>"
  note in_transition = level_transition [where g = demo_transition and st = ?st
      and hands = "[pointing_hand]" and w = 640 and h = 480]
  have t: "is_transitioning demo_transition" "transition_progress demo_transition + 3 < 100"
    by (simp_all add: demo_transition_eval)
  have same: "next_level demo_transition = demo_transition"
    using in_transition t by blast
  have step: "update demo_transition
                = demo_transition\<lparr>transition_progress := transition_progress demo_transition + 3\<rparr>"
    using in_transition t by blast
  have frame: "game demo_transition_frame
       = Some (update (gesture_phase [pointing_hand] demo_transition []))"
    using in_transition t p by (simp add: demo_transition_frame_def)
  let ?e = "demo_transition\<lparr>transition_progress := 99\<rparr>"
  have e: "is_transitioning ?e" "100 \<le> transition_progress ?e + 3"
    by (simp_all add: demo_transition_eval)
  have resolved: "\<not> is_transitioning (update ?e)"
    using level_transition [where g = ?e and st = app_start and hands = "[]"
      and w = 640 and h = 480] e by blast
  have c2: "current_level (next_level demo_game) = 2" "is_transitioning (next_level demo_game)"
    by (simp_all add: nl demo_game_eval)
  have f33: "transition_progress ((update ^^ 33) (next_level demo_game)) = 99"
    "is_transitioning ((update ^^ 33) (next_level demo_game))"
    by (simp_all add: r33 c2)
  have f34: "\<not> is_transitioning ((update ^^ 34) (next_level demo_game))"
    "length (targets ((update ^^ 34) (next_level demo_game))) = 4"
    by (simp_all add: r34 init_level_def level_offsets_def c2)
  have s3: "transition_progress (update demo_transition) = 3"
    by (simp add: step demo_transition_eval)
  show ?thesis
    using a t e p same frame resolved c2 f33 f34 s3 by simp
qed

subsection \<open>The fist classifier\<close>

lemma landmark_distance_nonneg: "0 \<le> landmark_distance a b"
  by (simp add: landmark_distance_def)

lemma detect_fist_rule:
  assumes "21 \<le> length lms"
  shows "detect_fist (Some lms)
           = Inr (4 \<le> bent_count lms \<and> max_adjacent_tip_distance lms < 0.5 * hand_size lms)"
proof -
  have upt3: "[0..<(3::nat)] = [0, 1, 2]"
    by (simp add: upt_rec)
  have m: "max (max (max 0 (landmark_distance (lms ! 8) (lms ! 12)))
                      (landmark_distance (lms ! 12) (lms ! 16)))
                 (landmark_distance (lms ! 16) (lms ! 20))
             = max_adjacent_tip_distance lms"
    using landmark_distance_nonneg [of "lms ! 8" "lms ! 12"]
    by (simp add: max_adjacent_tip_distance_def max_def)
  have "detect_fist (Some lms)
          = Inr (4 \<le> bent_count lms
                 \<and> max (max (max 0 (landmark_distance (lms ! 8) (lms ! 12)))
                      (landmark_distance (lms ! 12) (lms ! 16)))
                 (landmark_distance (lms ! 16) (lms ! 20)) < hand_size lms * 0.5)"
    using assms
    by (simp add: detect_fist_def finger_tips_def finger_pips_def finger_mcps_def upt3
        bent_count_def thumb_bent_def finger_bent_def palm_center_def hand_size_def
        landmark_distance_def Let_def mult.commute)
  then show ?thesis by (simp add: m mult.commute)
qed

lemma sqrt_scaled_less:
  "0 \<le> c \<Longrightarrow> 0 \<le> d \<Longrightarrow> sqrt a * c < d * sqrt b \<longleftrightarrow> a * c\<^sup>2 < d\<^sup>2 * b"
proof -
  assume c: "0 \<le> c" and d: "0 \<le> d"
  have "sqrt a * c = sqrt (a * c\<^sup>2)" "d * sqrt b = sqrt (d\<^sup>2 * b)"
    using c d by (simp_all add: real_sqrt_mult)
  then show ?thesis by simp
qed

lemma sqrt_scaled_less_one:
  "0 \<le> c \<Longrightarrow> sqrt a * c < sqrt b \<longleftrightarrow> a * c\<^sup>2 < b"
  using sqrt_scaled_less [of c 1 a b] by simp

lemma distance_less_scaled:
  "0 \<le> c \<Longrightarrow>
   landmark_distance a b < c * landmark_distance p q \<longleftrightarrow>
     (fst a - fst b)\<^sup>2 + (snd a - snd b)\<^sup>2
       < c\<^sup>2 * ((fst p - fst q)\<^sup>2 + (snd p - snd q)\<^sup>2)"
  unfolding landmark_distance_def
  using sqrt_scaled_less [of 1 c] by simp

lemma thumb_bent_squared:
  "thumb_bent lms \<longleftrightarrow>
     (fst (lms ! 4) - fst (palm_center lms))\<^sup>2 + (snd (lms ! 4) - snd (palm_center lms))\<^sup>2
       < (95 / 100)\<^sup>2 * ((fst (lms ! 2) - fst (palm_center lms))\<^sup>2
                           + (snd (lms ! 2) - snd (palm_center lms))\<^sup>2)"
  unfolding thumb_bent_def
  using distance_less_scaled [of "95 / 100" "lms ! 4" "palm_center lms" "lms ! 2" "palm_center lms"]
  by simp

lemma finger_bent_squared:
  "finger_bent lms tip pip mcp \<longleftrightarrow>
     snd (lms ! pip) < snd (lms ! tip)
     \<and> (fst (lms ! tip) - fst (palm_center lms))\<^sup>2
         + (snd (lms ! tip) - snd (palm_center lms))\<^sup>2
       < (9 / 10)\<^sup>2 * ((fst (lms ! mcp) - fst (palm_center lms))\<^sup>2
                         + (snd (lms ! mcp) - snd (palm_center lms))\<^sup>2)"
  unfolding finger_bent_def
  using distance_less_scaled [of "9 / 10" "lms ! tip" "palm_center lms" "lms ! mcp" "palm_center lms"]
  by simp

lemma tips_close_squared:
  "landmark_distance a b < 0.5 * hand_size lms \<longleftrightarrow>
     (fst a - fst b)\<^sup>2 + (snd a - snd b)\<^sup>2
       < (1 / 2)\<^sup>2 * ((fst (lms ! 0) - fst (lms ! 9))\<^sup>2 + (snd (lms ! 0) - snd (lms ! 9))\<^sup>2)"
  unfolding hand_size_def
  using distance_less_scaled [of "1 / 2" a b "lms ! 0" "lms ! 9"]
  by simp

lemma demo_hand_bent:
  "thumb_bent demo_hand" "finger_bent demo_hand 8 6 5" "finger_bent demo_hand 12 10 9"
  "finger_bent demo_hand 16 14 13" "finger_bent demo_hand 20 18 17"
  by (simp_all add: thumb_bent_squared finger_bent_squared palm_center_def demo_hand_def
      power2_eq_square)

lemma demo_hand_tips:
  "landmark_distance (demo_hand ! 8) (demo_hand ! 12) < 0.5 * hand_size demo_hand"
  "landmark_distance (demo_hand ! 12) (demo_hand ! 16) < 0.5 * hand_size demo_hand"
  "landmark_distance (demo_hand ! 16) (demo_hand ! 20) < 0.5 * hand_size demo_hand"
  "\<not> landmark_distance (demo_hand ! 8) (demo_hand ! 20) < 0.5 * hand_size demo_hand"
  unfolding tips_close_squared
  by (simp_all add: demo_hand_def power2_eq_square)

lemma demo_hand_eval:
  "length demo_hand = 21"
  "bent_count demo_hand = 5"
  "max_adjacent_tip_distance demo_hand < 0.5 * hand_size demo_hand"
  "\<not> max_pairwise_tip_distance demo_hand < 0.5 * hand_size demo_hand"
proof -
  show "length demo_hand = 21" by (simp add: demo_hand_def)
  show "bent_count demo_hand = 5" by (simp add: bent_count_def demo_hand_bent)
  show "max_adjacent_tip_distance demo_hand < 0.5 * hand_size demo_hand"
    unfolding max_adjacent_tip_distance_def max_less_iff_conj
    using demo_hand_tips(1,2,3) by blast
  show "\<not> max_pairwise_tip_distance demo_hand < 0.5 * hand_size demo_hand"
    unfolding max_pairwise_tip_distance_def max_less_iff_conj
    using demo_hand_tips(4) by blast
qed

text \<open>
  Against claim C8 as stated: on \<open>demo_hand\<close> all five fingers count as bent and
  neighbouring fingertips are 0.1 apart, below half the hand size (0.2), so
  \<open>detect_fist\<close> returns true; but the index and pinky tips are 0.3 apart, so the
  maximum over all pairs of fingertips is not below half the hand size, and the rule as
  stated gives false.
\<close>

theorem adjacent_tips_only:
  "detect_fist (Some demo_hand) = Inr True
   \<and> bent_count demo_hand = 5
   \<and> \<not> max_pairwise_tip_distance demo_hand < 0.5 * hand_size demo_hand
   \<and> \<not> stated_fist_rule demo_hand"
  using detect_fist_rule [of demo_hand] demo_hand_eval
  by (simp add: stated_fist_rule_def)

text \<open>
  Claim C8, amended. For a hand of (at least) 21 landmarks \<open>detect_fist\<close> returns true
  exactly when at least 4 of the 5 fingers are bent (thumb: tip nearer to the palm center
  than 0.95 times the base joint; other fingers: tip below the pip joint and nearer to
  the palm center than 0.90 times the base joint) and the largest distance between
  neighbouring non-thumb fingertips (index and middle, middle and ring, ring and pinky)
  is below half the hand size. With fewer landmarks the function fails with an index
  error; for an absent hand it returns false.
\<close>

theorem fist_rule_adjacent_tips:
  "(21 \<le> length lms \<longrightarrow>
      detect_fist (Some lms)
        = Inr (4 \<le> bent_count lms
               \<and> max_adjacent_tip_distance lms < 0.5 * hand_size lms))
   \<and> (length lms < 21 \<longrightarrow> detect_fist (Some lms) = Inl IndexError)
   \<and> detect_fist None = Inr False"
  by (simp add: detect_fist_rule) (simp add: detect_fist_def)

theorem fist_rule_adjacent_tips_witness:
  "21 \<le> length demo_hand
   \<and> 4 \<le> bent_count demo_hand
   \<and> max_adjacent_tip_distance demo_hand < 0.5 * hand_size demo_hand
   \<and> detect_fist (Some demo_hand) = Inr True
   \<and> length (take 20 demo_hand) < 21
   \<and> detect_fist (Some (take 20 demo_hand)) = Inl IndexError"
  using fist_rule_adjacent_tips [of demo_hand] fist_rule_adjacent_tips [of "take 20 demo_hand"]
    demo_hand_eval
  by simp

subsection \<open>A held pointer, frame by frame\<close>

lemma pause_frame_check_button_hover:
  "last_fist_state (snd (check_button_hover g px py)) = last_fist_state g"
  by (simp add: check_button_hover_def Let_def reset_game_def)

lemma pause_frame_sling:
  "last_fist_state (start_pull g px py) = last_fist_state g"
  "last_fist_state (update_pull g px py) = last_fist_state g"
  "last_fist_state (release g) = last_fist_state g"
  "last_fist_state (next_level g) = last_fist_state g"
  "is_paused (next_level g) = is_paused g"
  "last_fist_state (update g) = last_fist_state g"
  "is_paused (update g) = is_paused g"
  by (simp_all add: start_pull_def update_pull_def release_def next_level_def
      start_transition_def update_def update_transition_def init_level_def
      Let_def split: prod.splits)

lemma pause_frame_game_logic:
  "last_fist_state (game_logic gs g) = last_fist_state g"
  by (simp add: game_logic_def Let_def pause_frame_check_button_hover pause_frame_sling)

lemma pause_frame_process_hand:
  "is_paused (fst (snd (process_hand h (gs, g, fh)))) = is_paused g"
  "last_fist_state (fst (snd (process_hand h (gs, g, fh)))) = last_fist_state g"
  "fist_detected (fst (snd (process_hand h (gs, g, fh))))
     = fst (update_fist_detection fh (obs_raw_fist h))"
  "snd (snd (process_hand h (gs, g, fh))) = snd (update_fist_detection fh (obs_raw_fist h))"
  by (simp_all add: process_hand_def Let_def transition_frame_check_button_hover
      pause_frame_check_button_hover split: prod.splits)

lemma pause_no_edge:
  "\<not> fist_detected g \<Longrightarrow> \<not> last_fist_state g
   \<Longrightarrow> is_paused (update_pause_state g) = is_paused g
       \<and> \<not> last_fist_state (update_pause_state g)"
  by (simp add: update_pause_state_def Let_def)

lemma history_after_false:
  "snd (update_fist_detection fh False) \<noteq> []
   \<and> \<not> last (snd (update_fist_detection fh False))"
proof (cases "length fh \<ge> 3")
  case True
  then have "fh \<noteq> []" by auto
  then have "tl (fh @ [False]) = tl fh @ [False]" by simp
  then show ?thesis using True by (simp add: fist_history_step)
next
  case False
  then show ?thesis by (simp add: fist_history_step)
qed

lemma held_frame:
  assumes g: "g = (case game st of None \<Rightarrow> SimpleGame_init w h | Some g0 \<Rightarrow> g0)"
    and np: "\<not> is_paused g" and nl: "\<not> last_fist_state g"
    and fh: "fist_history st = [] \<or> \<not> last (fist_history st)"
    and pt: "obs_pointing ho" and nf: "\<not> obs_raw_fist ho"
  shows "\<exists>g'. game (video_frame_callback w h [ho] st) = Some g'
           \<and> \<not> is_paused g' \<and> \<not> last_fist_state g'
           \<and> fist_history (video_frame_callback w h [ho] st) \<noteq> []
           \<and> \<not> last (fist_history (video_frame_callback w h [ho] st))
           \<and> reset_button g'
               = reset_button (snd (hover_run g [obs_point_pos ho, obs_point_pos ho]))"
proof -
  define s1 where "s1 = process_hands [ho] (no_gestures, g, fist_history st)"
  define g2 where "g2 = update_pause_state (fst (snd s1))"
  define g3 where "g3 = (if \<not> is_paused g2 then game_logic (fst s1) g2 else g2)"
  define sw where "sw = update_swipe_detection (swipe_history st) (is_swiping (fst s1))
                 (swipe_position (fst s1))"
  define g4 where "g4 = (if fst sw \<and> game_won g3 \<and> \<not> is_transitioning g3
                then (if current_level g3 < max_level g3 then next_level g3 else g3)
                else g3)"
  define g5 where "g5 = (if \<not> is_paused g4 then update g4 else g4)"
  have frame: "video_frame_callback w h [ho] st
                 = \<lparr>game = Some g5, fist_history = snd (snd s1), swipe_history = snd sw\<rparr>"
    by (rule frame_staged [OF g s1_def g2_def g3_def sw_def g4_def g5_def])
  have s1: "s1 = process_hand ho (no_gestures, g, fist_history st)"
    by (simp add: s1_def)
  have stable: "fst (update_fist_detection (fist_history st) (obs_raw_fist ho)) = False"
    using fh nf by (auto simp add: fist_output_step)
  have g1: "is_paused (fst (snd s1)) = is_paused g"
    "last_fist_state (fst (snd s1)) = last_fist_state g"
    "\<not> fist_detected (fst (snd s1))"
    unfolding s1 by (simp_all add: pause_frame_process_hand stable)
  have hist: "snd (snd s1) = snd (update_fist_detection (fist_history st) False)"
    unfolding s1 using nf by (simp add: pause_frame_process_hand)
  have g2: "\<not> is_paused g2" "\<not> last_fist_state g2"
    using pause_no_edge [of "fst (snd s1)"] g1 np nl by (simp_all add: g2_def)
  have g3: "\<not> is_paused g3" "\<not> last_fist_state g3"
    using g2 by (simp_all add: g3_def transition_frame_game_logic pause_frame_game_logic)
  have g4: "\<not> is_paused g4" "\<not> last_fist_state g4"
    using g3 by (simp_all add: g4_def pause_frame_sling)
  have g5: "\<not> is_paused g5" "\<not> last_fist_state g5"
    using g4 by (simp_all add: g5_def pause_frame_sling)
  have paused: "\<not> paused_after_hands [ho] g (fist_history st)"
    using g2 by (simp add: paused_after_hands_def g2_def s1_def)
  have pp: "pointer_positions [ho] = [obs_point_pos ho]"
    using pt by (simp add: pointer_positions_def)
  from button_after_frame [OF g, of "[ho]"] paused pp
  obtain g' where g': "game (video_frame_callback w h [ho] st) = Some g'"
    "reset_button g' = reset_button (snd (hover_run g [obs_point_pos ho, obs_point_pos ho]))"
    by auto
  have "g' = g5" using g'(1) frame by simp
  then show ?thesis
    using g' g5 frame hist history_after_false [of "fist_history st"] by simp
qed

lemma held_pointer_invariant:
  "\<not> is_paused (held_game n) \<and> \<not> last_fist_state (held_game n)
   \<and> (fist_history (held_pointer n) = [] \<or> \<not> last (fist_history (held_pointer n)))
   \<and> (0 < n \<longrightarrow> game (held_pointer n) = Some (held_game n))
   \<and> reset_button (held_game n)
       = reset_button (snd (hover_run demo_game (replicate (2 * n) (50, 390))))"
proof (induction n)
  case 0
  show ?case
    by (simp add: held_game_def held_pointer_def app_start_def demo_game_eval
        demo_game_def [symmetric])
next
  case (Suc n)
  let ?st = "held_pointer n"
  let ?p = "(50, 390) :: real \<times> real"
  have next_frame: "held_pointer (Suc n) = video_frame_callback 640 480 [pointing_hand] ?st"
    by (simp add: held_pointer_def)
  have g: "held_game n
             = (case game ?st of None \<Rightarrow> SimpleGame_init 640 480 | Some g0 \<Rightarrow> g0)"
    by (simp add: held_game_def)
  have hand: "obs_pointing pointing_hand" "\<not> obs_raw_fist pointing_hand"
    "obs_point_pos pointing_hand = ?p"
    by (simp_all add: pointing_hand_def)
  from held_frame [OF g _ _ _ hand(1,2)] Suc.IH
  obtain g' where g': "game (held_pointer (Suc n)) = Some g'"
    "\<not> is_paused g'" "\<not> last_fist_state g'"
    "fist_history (held_pointer (Suc n)) \<noteq> []"
    "\<not> last (fist_history (held_pointer (Suc n)))"
    "reset_button g' = reset_button (snd (hover_run (held_game n) [?p, ?p]))"
    unfolding next_frame hand(3) by blast
  have hg: "held_game (Suc n) = g'"
    by (simp add: held_game_def g'(1))
  have "reset_button (snd (hover_run (held_game n) [?p, ?p]))
          = reset_button (snd (hover_run
              (snd (hover_run demo_game (replicate (2 * n) ?p))) [?p, ?p]))"
    by (rule button_hover_run_cong) (use Suc.IH in simp)
  also have "\<dots> = reset_button (snd (hover_run demo_game (replicate (2 * n) ?p @ [?p, ?p])))"
    by (simp only: hover_run_append Let_def case_prod_beta snd_conv)
  also have "replicate (2 * n) ?p @ [?p, ?p] = replicate (2 * Suc n) ?p"
  proof -
    have "2 * Suc n = 2 * n + 2" by simp
    moreover have "replicate 2 ?p = [?p, ?p]" by (simp add: numeral_2_eq_2)
    ultimately show ?thesis by (simp only: replicate_add)
  qed
  finally show ?case
    using g' by (simp add: hg)
qed

text \<open>
  Claim C3 on the code. From the start, every frame shows one hand pointing at (50, 390),
  inside the literal button rectangle; the game is never paused. The button starts at
  progress 0, not triggered. Each frame calls \<open>check_button_hover\<close> twice, once in the
  loop over the hands and once in the game logic, so the progress is 4 after the first
  tick and 56 after the 14th, and the 15th tick fills the bar: the button is triggered
  with progress pinned at 60, fifteen ticks before the 30th.
\<close>

theorem held_pointer_fires_on_tick_15:
  "progress (reset_button (held_game 0)) = 0
   \<and> \<not> has_triggered (reset_button (held_game 0))
   \<and> \<not> is_paused (held_game 0)
   \<and> progress (reset_button (held_game 1)) = 4
   \<and> \<not> is_paused (held_game 14)
   \<and> progress (reset_button (held_game 14)) = 56
   \<and> \<not> has_triggered (reset_button (held_game 14))
   \<and> game (held_pointer 15) = Some (held_game 15)
   \<and> has_triggered (reset_button (held_game 15))
   \<and> progress (reset_button (held_game 15)) = 60"
proof -
  have hyps: "in_button_area (reset_button demo_game) 50 390"
    "0 \<le> detection_padding (reset_button demo_game)"
    "progress (reset_button demo_game) = 0"
    "\<not> has_triggered (reset_button demo_game)"
    "max_progress (reset_button demo_game) = 60"
    by (simp_all add: demo_game_eval in_button_area_def)
  have b0: "reset_button (held_game 0) = reset_button demo_game"
    using held_pointer_invariant [of 0] by simp
  have b1: "reset_button (held_game 1)
              = reset_button (snd (hover_run demo_game (replicate (Suc 1) (50, 390))))"
    using held_pointer_invariant [of 1] by (simp add: numeral_2_eq_2)
  have b14: "reset_button (held_game 14)
              = reset_button (snd (hover_run demo_game (replicate (Suc 27) (50, 390))))"
    using held_pointer_invariant [of 14] by simp
  have b15: "reset_button (held_game 15)
              = reset_button (snd (hover_run demo_game (replicate 30 (50, 390))))"
    using held_pointer_invariant [of 15] by simp
  have r1: "hover_run demo_game (replicate (Suc 1) (50, 390)) =
           (replicate (Suc 1) False,
            demo_game\<lparr>reset_button := (reset_button demo_game)\<lparr>hover := True, active := True,
                 progress := 2 * real (Suc 1), was_in_area := True\<rparr>\<rparr>)"
    by (rule hold_accumulates [OF hyps]) simp
  have r14: "hover_run demo_game (replicate (Suc 27) (50, 390)) =
           (replicate (Suc 27) False,
            demo_game\<lparr>reset_button := (reset_button demo_game)\<lparr>hover := True, active := True,
                 progress := 2 * real (Suc 27), was_in_area := True\<rparr>\<rparr>)"
    by (rule hold_accumulates [OF hyps]) simp
  note r15 = hold_fires [OF hyps]
  have c0: "progress (reset_button (held_game 0)) = 0"
    "\<not> has_triggered (reset_button (held_game 0))"
    unfolding b0 using hyps by simp_all
  have c1: "progress (reset_button (held_game 1)) = 4"
    unfolding b1 r1 by simp
  have c14: "progress (reset_button (held_game 14)) = 56"
    "\<not> has_triggered (reset_button (held_game 14))"
    unfolding b14 r14 using hyps by simp_all
  have c15: "has_triggered (reset_button (held_game 15))"
    "progress (reset_button (held_game 15)) = 60"
    unfolding b15 r15 by simp_all
  have p: "\<not> is_paused (held_game 0)" "\<not> is_paused (held_game 14)"
    "game (held_pointer 15) = Some (held_game 15)"
    using held_pointer_invariant [of 0] held_pointer_invariant [of 14]
      held_pointer_invariant [of 15]
    by simp_all
  show ?thesis
    using c0 c1 c14 c15 p by blast
qed

end
